theory Spec2Isabelle
  imports Complex_Main "HOL-Library.AList"
begin

section \<open>Weather ingestion handler: data model\<close>

text \<open>
  A shallow embedding of \<^verbatim>\<open>lambda_function.py\<close>. The handler talks to four external
  parties: the process environment, the weather provider (HTTP), the object store and
  the structured table, and it reads the clock. They are gathered in a record
  \<open>world\<close> of oracles; the calls the handler makes are appended to a trace in the
  \<open>state\<close>, together with the number of clock reads made so far. Exceptions are values.
  The \<^verbatim>\<open>print\<close> statements (logging to standard output) are left out.
\<close>

subsection \<open>JSON values as Python sees them after \<^verbatim>\<open>json.loads\<close>\<close>

text \<open>
  A Python float is represented by its \<^verbatim>\<open>repr\<close> text (every binary64 value has
  exactly one), so \<^verbatim>\<open>str(x)\<close> of a float is the text itself and no floating-point
  arithmetic is modelled. A dict is an association list with distinct keys, in
  insertion order.
\<close>

datatype json =
    JNull
  | JBool bool
  | JInt int
  | JFloat string
  | JStr string
  | JArr "json list"
  | JObj "(string \<times> json) list"

datatype exn =
    KeyError string
  | IndexError string
  | TypeError string
  | AttributeError string
  | InvalidOperation
  | ZeroDivisionError
  | UnboundLocalError string
  | OtherError string

definition quote :: "string \<Rightarrow> string" where
  "quote s = [CHR 0x27] @ s @ [CHR 0x27]"

text \<open>\<^verbatim>\<open>str(e)\<close>: the text the handler reports. A \<open>KeyError\<close> carries the
  \<^verbatim>\<open>repr\<close> of the missing key.\<close>

fun str_exn :: "exn \<Rightarrow> string" where
  "str_exn (KeyError k) = k"
| "str_exn (IndexError m) = m"
| "str_exn (TypeError m) = m"
| "str_exn (AttributeError m) = m"
| "str_exn InvalidOperation = ''[<class '' @ quote ''decimal.ConversionSyntax'' @ ''>]''"
| "str_exn ZeroDivisionError = ''division by zero''"
| "str_exn (UnboundLocalError m) = m"
| "str_exn (OtherError m) = m"

definition bind_exn :: "exn + 'a \<Rightarrow> ('a \<Rightarrow> exn + 'b) \<Rightarrow> exn + 'b" where
  "bind_exn m f = (case m of Inl e \<Rightarrow> Inl e | Inr v \<Rightarrow> f v)"

fun type_name :: "json \<Rightarrow> string" where
  "type_name JNull = ''NoneType''"
| "type_name (JBool _) = ''bool''"
| "type_name (JInt _) = ''int''"
| "type_name (JFloat _) = ''float''"
| "type_name (JStr _) = ''str''"
| "type_name (JArr _) = ''list''"
| "type_name (JObj _) = ''dict''"

text \<open>\<^verbatim>\<open>x.get(key, default)\<close>: only a dict has the method.\<close>

fun py_get :: "json \<Rightarrow> string \<Rightarrow> json \<Rightarrow> exn + json" where
  "py_get (JObj kv) k d = Inr (case map_of kv k of None \<Rightarrow> d | Some v \<Rightarrow> v)"
| "py_get x k d =
     Inl (AttributeError (quote (type_name x) @ '' object has no attribute '' @ quote ''get''))"

text \<open>\<^verbatim>\<open>x[key]\<close> with a string key.\<close>

fun getitem :: "json \<Rightarrow> string \<Rightarrow> exn + json" where
  "getitem (JObj kv) k =
     (case map_of kv k of None \<Rightarrow> Inl (KeyError (quote k)) | Some v \<Rightarrow> Inr v)"
| "getitem (JArr xs) k = Inl (TypeError ''list indices must be integers or slices, not str'')"
| "getitem (JStr s) k = Inl (TypeError (''string indices must be integers, not '' @ quote ''str''))"
| "getitem x k = Inl (TypeError (quote (type_name x) @ '' object is not subscriptable''))"

text \<open>\<^verbatim>\<open>x[0]\<close>. A dict parsed from JSON has string keys only, so \<^verbatim>\<open>d[0]\<close>
  is a \<open>KeyError\<close>.\<close>

fun getitem0 :: "json \<Rightarrow> exn + json" where
  "getitem0 (JArr xs) =
     (case xs of [] \<Rightarrow> Inl (IndexError ''list index out of range'') | x # _ \<Rightarrow> Inr x)"
| "getitem0 (JStr s) =
     (case s of [] \<Rightarrow> Inl (IndexError ''string index out of range'') | c # _ \<Rightarrow> Inr (JStr [c]))"
| "getitem0 (JObj kv) = Inl (KeyError ''0'')"
| "getitem0 x = Inl (TypeError (quote (type_name x) @ '' object is not subscriptable''))"

text \<open>\<^verbatim>\<open>x[key] = v\<close> with a string key: an existing key keeps its place, a new one
  goes last.\<close>

fun setitem :: "json \<Rightarrow> string \<Rightarrow> json \<Rightarrow> exn + json" where
  "setitem (JObj kv) k v = Inr (JObj (AList.update k v kv))"
| "setitem (JArr xs) k v = Inl (TypeError ''list indices must be integers or slices, not str'')"
| "setitem x k v =
     Inl (TypeError (quote (type_name x) @ '' object does not support item assignment''))"

subsection \<open>Decimal text\<close>

fun str_nat :: "nat \<Rightarrow> string" where
  "str_nat n =
     (if n < 10 then [''0123456789'' ! n] else str_nat (n div 10) @ [''0123456789'' ! (n mod 10)])"

declare str_nat.simps [simp del]

definition str_int :: "int \<Rightarrow> string" where
  "str_int i = (if i < 0 then CHR ''-'' # str_nat (nat (- i)) else str_nat (nat i))"

text \<open>A \<^verbatim>\<open>Decimal\<close> is kept as the numeric string it was constructed from.\<close>

datatype decimal = Decimal string

subsection \<open>The clock\<close>

record datetime =
  year :: nat
  month :: nat
  day :: nat
  hour :: nat
  minute :: nat
  second :: nat
  microsecond :: nat

definition pad :: "nat \<Rightarrow> nat \<Rightarrow> string" where
  "pad w n = replicate (w - length (str_nat n)) (CHR ''0'') @ str_nat n"

text \<open>\<^verbatim>\<open>isoformat()\<close> of a naive datetime: the fraction is printed only when the
  microsecond is not zero.\<close>

definition isoformat :: "datetime \<Rightarrow> string" where
  "isoformat d =
     pad 4 (year d) @ ''-'' @ pad 2 (month d) @ ''-'' @ pad 2 (day d) @ ''T''
     @ pad 2 (hour d) @ '':'' @ pad 2 (minute d) @ '':'' @ pad 2 (second d)
     @ (if microsecond d = 0 then [] else ''.'' @ pad 6 (microsecond d))"

text \<open>\<^verbatim>\<open>strftime('%Y/%m/%d')\<close>, as the C library of the Linux runtime prints it: the
  year is not padded (it has four digits from the year 1000 on), month and day have two
  digits.\<close>

definition strftime_Ymd :: "datetime \<Rightarrow> string" where
  "strftime_Ymd d = str_nat (year d) @ ''/'' @ pad 2 (month d) @ ''/'' @ pad 2 (day d)"

subsection \<open>External calls\<close>

record s3_request =
  Bucket :: string
  Key :: string
  Body :: json
  ContentType :: string
  Metadata :: "(string \<times> string) list"

text \<open>\<open>Body\<close> is the stamped payload; the request carries its text
  \<^verbatim>\<open>json.dumps(data, indent=2)\<close>. The three text columns of a row are whatever JSON
  values the payload holds there.\<close>

record item =
  city :: string
  timestamp :: string
  temperature :: decimal
  humidity :: decimal
  pressure :: decimal
  weather_condition :: json
  weather_description :: json
  wind_speed :: decimal
  visibility :: decimal
  cloudiness :: decimal
  country :: json
  sunrise :: decimal
  sunset :: decimal

datatype call = HttpGet string | PutObject s3_request | PutItem item

text \<open>
  The oracles. \<open>Some e\<close> (or \<open>Inl e\<close>) is the call raising \<open>e\<close>.
  \<open>urlopen_json url\<close> stands for lines 58 and 59 together: opening the URL, reading,
  decoding and parsing the body, any of which may raise. \<open>now n\<close> is what the
  \<open>n\<close>-th call of \<^verbatim>\<open>datetime.now()\<close> returns. \<open>decimal_of_str s\<close> is
  \<^verbatim>\<open>Decimal(s)\<close> for a payload value that is a JSON string: which texts the library
  takes for numeric strings (white space, underscores, digits of any script, the range
  of the exponent) is left to it.
\<close>

record world =
  boto3_client_s3 :: "exn option"
  boto3_resource_dynamodb :: "exn option"
  dynamodb_Table :: "exn option"
  environ :: "string \<Rightarrow> string option"
  urlopen_json :: "string \<Rightarrow> exn + json"
  put_object :: "s3_request \<Rightarrow> exn option"
  put_item :: "item \<Rightarrow> exn option"
  now :: "nat \<Rightarrow> datetime"
  decimal_of_str :: "string \<Rightarrow> exn + decimal"

text \<open>\<^verbatim>\<open>Decimal(str(x))\<close>. The text of an int or a float is always a numeric string; the
  text of \<^verbatim>\<open>None\<close>, a bool, a list or a dict never is.\<close>

fun to_decimal :: "world \<Rightarrow> json \<Rightarrow> exn + decimal" where
  "to_decimal w (JInt i) = Inr (Decimal (str_int i))"
| "to_decimal w (JFloat r) = Inr (Decimal r)"
| "to_decimal w (JStr s) = decimal_of_str w s"
| "to_decimal w x = Inl InvalidOperation"

record state =
  calls :: "call list"
  reads :: nat

definition do_call :: "call \<Rightarrow> state \<Rightarrow> state" where
  "do_call c st = st\<lparr>calls := calls st @ [c]\<rparr>"

definition tick :: "state \<Rightarrow> state" where
  "tick st = st\<lparr>reads := Suc (reads st)\<rparr>"

record response =
  statusCode :: int
  body :: json

section \<open>The handler\<close>

definition cities :: "string list" where
  "cities = [''Pretoria'', ''Cape%20Town'', ''Johannesburg'', ''Durban'']"

definition city_display :: "string list" where
  "city_display = [''Pretoria'', ''Cape Town'', ''Johannesburg'', ''Durban'']"

definition api_url :: "string \<Rightarrow> string \<Rightarrow> string" where
  "api_url q api_key =
     ''http://api.openweathermap.org/data/2.5/weather?q='' @ q @ ''&appid='' @ api_key
     @ ''&units=metric''"

text \<open>\<^verbatim>\<open>display_name.replace(' ', '_')\<close>\<close>

definition safe_city :: "string \<Rightarrow> string" where
  "safe_city display_name = map (\<lambda>c. if c = CHR '' '' then CHR ''_'' else c) display_name"

definition s3_key :: "string \<Rightarrow> datetime \<Rightarrow> string \<Rightarrow> string" where
  "s3_key display_name d ts =
     ''raw-data/'' @ safe_city display_name @ ''/'' @ strftime_Ymd d @ ''/'' @ ts @ ''.json''"

text \<open>Lines 87 to 103: the row, its fields evaluated in the order written.\<close>

definition build_item :: "world \<Rightarrow> string \<Rightarrow> string \<Rightarrow> json \<Rightarrow> exn + item" where
  "build_item w display_name ts data =
     bind_exn (bind_exn (bind_exn (getitem data ''main'') (\<lambda>m. getitem m ''temp'')) (to_decimal w))
       (\<lambda>temp.
     bind_exn (bind_exn (bind_exn (getitem data ''main'') (\<lambda>m. getitem m ''humidity'')) (to_decimal w))
       (\<lambda>hum.
     bind_exn (bind_exn (bind_exn (getitem data ''main'') (\<lambda>m. getitem m ''pressure'')) (to_decimal w))
       (\<lambda>pres.
     bind_exn (bind_exn (bind_exn (getitem data ''weather'') getitem0) (\<lambda>x. getitem x ''main''))
       (\<lambda>cond.
     bind_exn (bind_exn (bind_exn (getitem data ''weather'') getitem0)
                 (\<lambda>x. getitem x ''description''))
       (\<lambda>descr.
     bind_exn (bind_exn (bind_exn (getitem data ''wind'') (\<lambda>x. getitem x ''speed'')) (to_decimal w))
       (\<lambda>wind.
     bind_exn (bind_exn (py_get data ''visibility'' (JInt 0)) (to_decimal w))
       (\<lambda>vis.
     bind_exn (bind_exn (bind_exn (getitem data ''clouds'') (\<lambda>x. getitem x ''all'')) (to_decimal w))
       (\<lambda>clouds.
     bind_exn (bind_exn (getitem data ''sys'') (\<lambda>x. getitem x ''country''))
       (\<lambda>ctry.
     bind_exn (bind_exn (bind_exn (getitem data ''sys'') (\<lambda>x. getitem x ''sunrise'')) (to_decimal w))
       (\<lambda>rise.
     bind_exn (bind_exn (bind_exn (getitem data ''sys'') (\<lambda>x. getitem x ''sunset'')) (to_decimal w))
       (\<lambda>sset.
     Inr \<lparr>city = display_name, timestamp = ts, temperature = temp, humidity = hum,
          pressure = pres, weather_condition = cond, weather_description = descr,
          wind_speed = wind, visibility = vis, cloudiness = clouds, country = ctry,
          sunrise = rise, sunset = sset\<rparr>)))))))))))"

definition success_result :: "string \<Rightarrow> string \<Rightarrow> json \<Rightarrow> json" where
  "success_result display_name ts current_temp =
     JObj [(''city'', JStr display_name), (''status'', JStr ''success''),
           (''timestamp'', JStr ts), (''temperature'', current_temp)]"

definition error_result :: "string \<Rightarrow> exn \<Rightarrow> json" where
  "error_result display_name e =
     JObj [(''city'', JStr display_name), (''status'', JStr ''error''),
           (''error'', JStr (str_exn e))]"

text \<open>Lines 54 to 111: the body of the inner \<^verbatim>\<open>try\<close>, after \<open>display_name\<close> is bound.
  \<open>q\<close> is the loop variable \<^verbatim>\<open>city\<close>, the name as the URL spells it. The result
  is the city's success entry, or the exception that leaves the body.\<close>

definition process_city ::
  "world \<Rightarrow> string \<Rightarrow> string \<Rightarrow> string \<Rightarrow> string \<Rightarrow> state \<Rightarrow> (exn + json) \<times> state" where
  "process_city w api_key bucket_name display_name q st =
     (let url = api_url q api_key;
          st1 = do_call (HttpGet url) st
      in case urlopen_json w url of
           Inl e \<Rightarrow> (Inl e, st1)
         | Inr data \<Rightarrow>
             (case bind_exn (py_get data ''main'' (JObj [])) (\<lambda>m. py_get m ''temp'' (JStr ''N/A'')) of
                Inl e \<Rightarrow> (Inl e, st1)
              | Inr current_temp \<Rightarrow>
                  (let ts = isoformat (now w (reads st1));
                       st2 = tick st1
                   in case bind_exn (setitem data ''timestamp'' (JStr ts))
                             (\<lambda>d. setitem d ''city'' (JStr display_name)) of
                        Inl e \<Rightarrow> (Inl e, st2)
                      | Inr data' \<Rightarrow>
                          (let key = s3_key display_name (now w (reads st2)) ts;
                               st3 = tick st2;
                               req = \<lparr>Bucket = bucket_name, Key = key, Body = data',
                                      ContentType = ''application/json'',
                                      Metadata = [(''city'', display_name),
                                                  (''collection_time'', ts),
                                                  (''data_source'', ''openweathermap'')]\<rparr>;
                               st4 = do_call (PutObject req) st3
                           in case put_object w req of
                                Some e \<Rightarrow> (Inl e, st4)
                              | None \<Rightarrow>
                                  (case build_item w display_name ts data' of
                                     Inl e \<Rightarrow> (Inl e, st4)
                                   | Inr row \<Rightarrow>
                                       (let st5 = do_call (PutItem row) st4
                                        in case put_item w row of
                                             Some e \<Rightarrow> (Inl e, st5)
                                           | None \<Rightarrow>
                                               (Inr (success_result display_name ts current_temp),
                                                st5)))))))"

text \<open>
  Lines 49 to 120: the loop over \<^verbatim>\<open>enumerate(cities)\<close>. \<open>display_name\<close> is a local
  of the function, so it survives from one round to the next: were
  \<^verbatim>\<open>city_display[i]\<close> out of range, the handler of the inner \<^verbatim>\<open>try\<close> would read
  the previous round's name, or fail on an unbound local in the first round, and that
  failure would leave the loop.
\<close>

fun for_cities ::
  "world \<Rightarrow> string \<Rightarrow> string \<Rightarrow> (nat \<times> string) list \<Rightarrow> json list \<Rightarrow> string option \<Rightarrow> state
   \<Rightarrow> (exn + json list) \<times> state" where
  "for_cities w api_key bucket_name [] results dn st = (Inr results, st)"
| "for_cities w api_key bucket_name ((i, q) # rest) results dn st =
     (if i < length city_display then
        (let display_name = city_display ! i
         in case process_city w api_key bucket_name display_name q st of
              (Inr r, st') \<Rightarrow>
                for_cities w api_key bucket_name rest (results @ [r]) (Some display_name) st'
            | (Inl e, st') \<Rightarrow>
                for_cities w api_key bucket_name rest
                  (results @ [error_result display_name e]) (Some display_name) st')
      else
        (case dn of
           None \<Rightarrow>
             (Inl (UnboundLocalError
                ''cannot access local variable 'display_name' where it is not associated with a value''),
              st)
         | Some display_name \<Rightarrow>
             for_cities w api_key bucket_name rest
               (results @ [error_result display_name (IndexError ''list index out of range'')])
               dn st))"

text \<open>
  Lines 122 to 135. Python computes the rate in binary64; the loop always leaves four
  results, and \<open>k / 4 * 100\<close> is exact in binary64 for every \<open>k\<close>, so the rational
  below is the float's value. \<^verbatim>\<open>f"{x:.1f}"\<close> rounds the exact value to one decimal,
  ties to even; \<open>x\<close> is never negative here.
\<close>

definition round_half_even :: "rat \<Rightarrow> int" where
  "round_half_even x =
     (let f = \<lfloor>x\<rfloor>; r = x - of_int f
      in if r < 1 / 2 then f else if 1 / 2 < r then f + 1 else if even f then f else f + 1)"

definition format_1f :: "rat \<Rightarrow> string" where
  "format_1f x =
     (let t = round_half_even (x * 10)
      in str_int (t div 10) @ ''.'' @ str_int (t mod 10))"

definition is_success :: "json \<Rightarrow> bool" where
  "is_success r = (getitem r ''status'' = Inr (JStr ''success''))"

definition missing_env :: "string \<Rightarrow> response" where
  "missing_env name =
     \<lparr>statusCode = 400,
      body = JObj [(''error'', JStr (''Missing '' @ name @ '' environment variable''))]\<rparr>"

definition summary :: "json list \<Rightarrow> string \<Rightarrow> string \<Rightarrow> json" where
  "summary results rate execution_time =
     JObj [(''message'', JStr ''Weather data collection completed''),
           (''processed_cities'', JInt (int (length results))),
           (''successful_cities'', JInt (int (length (filter is_success results)))),
           (''success_rate'', JStr (rate @ ''%'')),
           (''execution_time'', JStr execution_time),
           (''results'', JArr results)]"

text \<open>Lines 20 to 139: the body of the outer \<^verbatim>\<open>try\<close>. \<^verbatim>\<open>not api_key\<close> holds for
  a variable that is unset (\<open>None\<close>) and for one that is empty.\<close>

definition lambda_handler_try ::
  "'e \<Rightarrow> 'c \<Rightarrow> world \<Rightarrow> state \<Rightarrow> (exn + response) \<times> state" where
  "lambda_handler_try event context w st =
     (case boto3_client_s3 w of
        Some e \<Rightarrow> (Inl e, st)
      | None \<Rightarrow>
     (case boto3_resource_dynamodb w of
        Some e \<Rightarrow> (Inl e, st)
      | None \<Rightarrow>
     (case dynamodb_Table w of
        Some e \<Rightarrow> (Inl e, st)
      | None \<Rightarrow>
     (case environ w ''WEATHER_API_KEY'' of
        None \<Rightarrow> (Inr (missing_env ''WEATHER_API_KEY''), st)
      | Some api_key \<Rightarrow>
          (if api_key = [] then (Inr (missing_env ''WEATHER_API_KEY''), st)
           else
             (case environ w ''S3_BUCKET_NAME'' of
                None \<Rightarrow> (Inr (missing_env ''S3_BUCKET_NAME''), st)
              | Some bucket_name \<Rightarrow>
                  (if bucket_name = [] then (Inr (missing_env ''S3_BUCKET_NAME''), st)
                   else
                     (case for_cities w api_key bucket_name (enumerate 0 cities) [] None st of
                        (Inl e, st') \<Rightarrow> (Inl e, st')
                      | (Inr results, st') \<Rightarrow>
                          (if length results = 0 then (Inl ZeroDivisionError, st')
                           else
                             (let successful_cities = filter is_success results;
                                  success_rate =
                                    of_nat (length successful_cities) / of_nat (length results)
                                    * 100
                              in (Inr \<lparr>statusCode = 200,
                                       body = summary results (format_1f success_rate)
                                                (isoformat (now w (reads st')))\<rparr>,
                                  tick st')))))))))))"

definition fatal :: "exn \<Rightarrow> string \<Rightarrow> response" where
  "fatal e execution_time =
     \<lparr>statusCode = 500,
      body = JObj [(''error'', JStr ''Fatal error in weather data collection''),
                   (''details'', JStr (str_exn e)),
                   (''execution_time'', JStr execution_time)]\<rparr>"

text \<open>Lines 19 to 151: the whole function. \<open>Inl\<close> would be an exception leaving it.\<close>

definition lambda_handler ::
  "'e \<Rightarrow> 'c \<Rightarrow> world \<Rightarrow> state \<Rightarrow> (exn + response) \<times> state" where
  "lambda_handler event context w st =
     (case lambda_handler_try event context w st of
        (Inr r, st') \<Rightarrow> (Inr r, st')
      | (Inl e, st') \<Rightarrow> (Inr (fatal e (isoformat (now w (reads st')))), tick st'))"

section \<open>Auxiliary definitions\<close>

text \<open>One round of the loop for an index in range: the entry appended and the state
  after it.\<close>

definition city_step ::
  "world \<Rightarrow> string \<Rightarrow> string \<Rightarrow> nat \<Rightarrow> string \<Rightarrow> state \<Rightarrow> json \<times> state" where
  "city_step w api_key bucket_name i q st =
     (case process_city w api_key bucket_name (city_display ! i) q st of
        (Inr r, st') \<Rightarrow> (r, st')
      | (Inl e, st') \<Rightarrow> (error_result (city_display ! i) e, st'))"

text \<open>The URLs requested in a trace, in order.\<close>

fun http_urls :: "call list \<Rightarrow> string list" where
  "http_urls [] = []"
| "http_urls (HttpGet u # cs) = u # http_urls cs"
| "http_urls (_ # cs) = http_urls cs"

text \<open>The payload shape the provider documents, visibility apart: the nested fields
  the row is built from are present, and the numeric ones are JSON numbers.\<close>

fun has_number :: "json \<Rightarrow> string \<Rightarrow> bool" where
  "has_number (JObj kv) k =
     (case map_of kv k of Some (JInt _) \<Rightarrow> True | Some (JFloat _) \<Rightarrow> True | _ \<Rightarrow> False)"
| "has_number _ k = False"

fun has_key :: "json \<Rightarrow> string \<Rightarrow> bool" where
  "has_key (JObj kv) k = (map_of kv k \<noteq> None)"
| "has_key _ k = False"

fun is_dict :: "json \<Rightarrow> bool" where
  "is_dict (JObj kv) = True"
| "is_dict _ = False"

definition field :: "(string \<times> json) list \<Rightarrow> string \<Rightarrow> json" where
  "field kv k = (case map_of kv k of None \<Rightarrow> JNull | Some v \<Rightarrow> v)"

definition expected_fields :: "(string \<times> json) list \<Rightarrow> bool" where
  "expected_fields kv =
     (is_dict (field kv ''main'')
      \<and> has_number (field kv ''main'') ''temp''
      \<and> has_number (field kv ''main'') ''humidity''
      \<and> has_number (field kv ''main'') ''pressure''
      \<and> (case field kv ''weather'' of
            JArr (x # _) \<Rightarrow> has_key x ''main'' \<and> has_key x ''description''
          | _ \<Rightarrow> False)
      \<and> has_number (field kv ''wind'') ''speed''
      \<and> has_number (field kv ''clouds'') ''all''
      \<and> has_key (field kv ''sys'') ''country''
      \<and> has_number (field kv ''sys'') ''sunrise''
      \<and> has_number (field kv ''sys'') ''sunset'')"

definition well_formed :: "(string \<times> json) list \<Rightarrow> bool" where
  "well_formed kv =
     (expected_fields kv
      \<and> (map_of kv ''visibility'' = None \<or> has_number (JObj kv) ''visibility''))"

text \<open>The run gets past the client constructions and both configuration checks, with
  credential \<open>k\<close> and bucket \<open>b\<close>.\<close>

definition passes_config :: "world \<Rightarrow> string \<Rightarrow> string \<Rightarrow> bool" where
  "passes_config w k b =
     (boto3_client_s3 w = None \<and> boto3_resource_dynamodb w = None \<and> dynamodb_Table w = None
      \<and> environ w ''WEATHER_API_KEY'' = Some k \<and> k \<noteq> []
      \<and> environ w ''S3_BUCKET_NAME'' = Some b \<and> b \<noteq> [])"

text \<open>The state in which round \<open>i\<close> of the loop starts, when the loop starts in \<open>st\<close>:
  each round leaves the state its processing of the city ends in.\<close>

primrec round_state :: "world \<Rightarrow> string \<Rightarrow> string \<Rightarrow> state \<Rightarrow> nat \<Rightarrow> state" where
  "round_state w api_key bucket_name st 0 = st"
| "round_state w api_key bucket_name st (Suc i) =
     snd (process_city w api_key bucket_name (city_display ! i) (cities ! i)
            (round_state w api_key bucket_name st i))"

text \<open>The object-store request for the payload \<open>kv\<close> of city \<open>d\<close>, when the clock has
  been read \<open>n\<close> times before: reading \<open>n\<close> gives the timestamp, reading \<open>n + 1\<close> the
  date directories.\<close>

definition put_request ::
  "world \<Rightarrow> string \<Rightarrow> string \<Rightarrow> (string \<times> json) list \<Rightarrow> nat \<Rightarrow> s3_request" where
  "put_request w bucket_name d kv n =
     \<lparr>Bucket = bucket_name,
      Key = s3_key d (now w (Suc n)) (isoformat (now w n)),
      Body = JObj (AList.update ''city'' (JStr d)
               (AList.update ''timestamp'' (JStr (isoformat (now w n))) kv)),
      ContentType = ''application/json'',
      Metadata = [(''city'', d), (''collection_time'', isoformat (now w n)),
                  (''data_source'', ''openweathermap'')]\<rparr>"

text \<open>Line 61 on a parsed payload.\<close>

definition current_temp :: "json \<Rightarrow> exn + json" where
  "current_temp data =
     bind_exn (py_get data ''main'' (JObj [])) (\<lambda>m. py_get m ''temp'' (JStr ''N/A''))"

text \<open>The error entry, written out.\<close>

definition error_entry :: "string \<Rightarrow> string \<Rightarrow> json" where
  "error_entry d message =
     JObj [(''city'', JStr d), (''status'', JStr ''error''), (''error'', JStr message)]"

text \<open>The keys of the object-store writes in a trace, in order.\<close>

fun object_keys :: "call list \<Rightarrow> string list" where
  "object_keys [] = []"
| "object_keys (PutObject req # cs) = Key req # object_keys cs"
| "object_keys (_ # cs) = object_keys cs"

text \<open>The value \<^verbatim>\<open>data[k][j]\<close> of a parsed payload.\<close>

definition payload_value :: "(string \<times> json) list \<Rightarrow> string \<Rightarrow> string \<Rightarrow> exn + json" where
  "payload_value kv k j = bind_exn (getitem (JObj kv) k) (\<lambda>x. getitem x j)"

text \<open>The rows of the table writes in a trace, in order.\<close>

fun table_rows :: "call list \<Rightarrow> item list" where
  "table_rows [] = []"
| "table_rows (PutItem row # cs) = row # table_rows cs"
| "table_rows (_ # cs) = table_rows cs"

text \<open>
  What \<^verbatim>\<open>json.loads\<close> makes of a number literal written as digits and an exponent,
  \<^verbatim>\<open>1e2\<close> for \<open>m = 1\<close> and \<open>x = 2\<close>: a literal with an exponent is parsed as a float,
  binary64 holds every integer below \<open>2 ^ 53\<close> exactly, and the \<^verbatim>\<open>repr\<close> of a float that
  is an integer below \<open>10 ^ 16\<close> is the integer's decimal text followed by \<^verbatim>\<open>.0\<close>. Larger
  values need rounding, which is not modelled: \<open>None\<close>.
\<close>

definition exponent_literal :: "nat \<Rightarrow> nat \<Rightarrow> string" where
  "exponent_literal m x = str_nat m @ ''e'' @ str_nat x"

definition loads_exponent_literal :: "nat \<Rightarrow> nat \<Rightarrow> json option" where
  "loads_exponent_literal m x =
     (if m * 10 ^ x < 2 ^ 53 then Some (JFloat (str_nat (m * 10 ^ x) @ ''.0'')) else None)"

subsection \<open>A sample run\<close>

definition sample_fields :: "(string \<times> json) list" where
  "sample_fields =
     [(''main'', JObj [(''temp'', JFloat ''23.456''), (''humidity'', JInt 65),
                       (''pressure'', JInt 1013)]),
      (''weather'', JArr [JObj [(''main'', JStr ''Clear''),
                                (''description'', JStr ''clear sky'')]]),
      (''wind'', JObj [(''speed'', JFloat ''3.6'')]),
      (''clouds'', JObj [(''all'', JInt 0)]),
      (''sys'', JObj [(''country'', JStr ''ZA''), (''sunrise'', JInt 1709611200),
                      (''sunset'', JInt 1709656800)])]"

definition sample_instant :: datetime where
  "sample_instant =
     \<lparr>year = 2024, month = 3, day = 5, hour = 10, minute = 0, second = 0, microsecond = 0\<rparr>"

definition sample_world :: world where
  "sample_world =
     \<lparr>boto3_client_s3 = None, boto3_resource_dynamodb = None, dynamodb_Table = None,
      environ = [''WEATHER_API_KEY'' \<mapsto> ''key'', ''S3_BUCKET_NAME'' \<mapsto> ''bucket''],
      urlopen_json = (\<lambda>url. Inr (JObj sample_fields)),
      put_object = (\<lambda>req. None),
      put_item = (\<lambda>row. None),
      now = (\<lambda>n. sample_instant),
      decimal_of_str = (\<lambda>s. Inl InvalidOperation)\<rparr>"

definition start :: state where
  "start = \<lparr>calls = [], reads = 0\<rparr>"

definition no_region :: exn where
  "no_region = OtherError ''You must specify a region.''"

definition timed_out :: exn where
  "timed_out = OtherError ''<urlopen error timed out>''"

text \<open>The same world, except that the request for Cape Town times out.\<close>

definition outage_world :: world where
  "outage_world =
     sample_world\<lparr>urlopen_json :=
       (\<lambda>url. if url = api_url ''Cape%20Town'' ''key'' then Inl timed_out
              else Inr (JObj sample_fields))\<rparr>"

text \<open>The sample world with a table that rejects every write.\<close>

definition throttled :: exn where
  "throttled = OtherError ''ProvisionedThroughputExceededException''"

definition throttled_world :: world where
  "throttled_world = sample_world\<lparr>put_item := (\<lambda>row. Some throttled)\<rparr>"

text \<open>The row and the object-store request that \<open>sample_fields\<close> gives for a city
  at \<open>sample_instant\<close>. The payload has no \<open>visibility\<close> entry.\<close>

definition sample_row :: "string \<Rightarrow> item" where
  "sample_row d =
     \<lparr>city = d, timestamp = ''2024-03-05T10:00:00'',
      temperature = Decimal ''23.456'', humidity = Decimal ''65'',
      pressure = Decimal ''1013'', weather_condition = JStr ''Clear'',
      weather_description = JStr ''clear sky'', wind_speed = Decimal ''3.6'',
      visibility = Decimal ''0'', cloudiness = Decimal ''0'', country = JStr ''ZA'',
      sunrise = Decimal ''1709611200'', sunset = Decimal ''1709656800''\<rparr>"

definition sample_request :: "string \<Rightarrow> s3_request" where
  "sample_request d =
     \<lparr>Bucket = ''bucket'',
      Key = s3_key d sample_instant ''2024-03-05T10:00:00'',
      Body = JObj (AList.update ''city'' (JStr d)
               (AList.update ''timestamp'' (JStr ''2024-03-05T10:00:00'') sample_fields)),
      ContentType = ''application/json'',
      Metadata = [(''city'', d), (''collection_time'', ''2024-03-05T10:00:00''),
                  (''data_source'', ''openweathermap'')]\<rparr>"

text \<open>The sample world with a clock that passes midnight between its first and its
  second reading.\<close>

definition midnight_world :: world where
  "midnight_world =
     sample_world\<lparr>now :=
       (\<lambda>n. if n = 0
            then \<lparr>year = 2024, month = 3, day = 5, hour = 23, minute = 59, second = 59,
                  microsecond = 999999\<rparr>
            else \<lparr>year = 2024, month = 3, day = 6, hour = 0, minute = 0, second = 0,
                  microsecond = 12\<rparr>)\<rparr>"

text \<open>The sample payload with the temperature that the source text \<^verbatim>\<open>"temp": 1e2\<close>
  parses to.\<close>

definition exponent_fields :: "(string \<times> json) list" where
  "exponent_fields =
     AList.update ''main''
       (JObj [(''temp'', JFloat ''100.0''), (''humidity'', JInt 65), (''pressure'', JInt 1013)])
       sample_fields"

text \<open>The sample world with that payload.\<close>

definition exponent_world :: world where
  "exponent_world = sample_world\<lparr>urlopen_json := (\<lambda>url. Inr (JObj exponent_fields))\<rparr>"

section \<open>Properties of one round and of the loop\<close>

lemma for_cities_round:
  "i < length city_display \<Longrightarrow>
   for_cities w k b ((i, q) # rest) results dn st =
     for_cities w k b rest (results @ [fst (city_step w k b i q st)]) (Some (city_display ! i))
       (snd (city_step w k b i q st))"
  by (simp add: city_step_def Let_def split: prod.splits sum.splits)

lemma for_cities_unfold:
  "for_cities w k b (enumerate 0 cities) [] None st =
     (let s1 = city_step w k b 0 ''Pretoria'' st;
          s2 = city_step w k b 1 ''Cape%20Town'' (snd s1);
          s3 = city_step w k b 2 ''Johannesburg'' (snd s2);
          s4 = city_step w k b 3 ''Durban'' (snd s3)
      in (Inr [fst s1, fst s2, fst s3, fst s4], snd s4))"
proof -
  have len: "length city_display = 4"
    by (simp add: city_display_def)
  have en: "enumerate 0 cities =
    [(0, ''Pretoria''), (1, ''Cape%20Town''), (2, ''Johannesburg''), (3, ''Durban'')]"
    by (simp add: cities_def enumerate_eq_zip upt_rec)
  show ?thesis
    unfolding en by (simp add: for_cities_round len Let_def del: for_cities.simps(2))
qed

lemma has_number_field: "has_number (field kv k) j \<Longrightarrow> map_of kv k = Some (field kv k)"
  by (auto simp: field_def split: option.splits)

lemma has_key_field: "has_key (field kv k) j \<Longrightarrow> map_of kv k = Some (field kv k)"
  by (auto simp: field_def split: option.splits)

lemma has_number_decimal:
  "has_number x j \<Longrightarrow> \<exists>dv. bind_exn (getitem x j) (to_decimal w) = Inr dv"
  by (cases x) (auto simp: bind_exn_def split: option.splits json.splits)

lemma has_key_getitem: "has_key x j \<Longrightarrow> \<exists>v. getitem x j = Inr v"
  by (cases x) auto

lemma field_stamped:
  "k \<noteq> ''city'' \<Longrightarrow> k \<noteq> ''timestamp'' \<Longrightarrow>
   map_of (AList.update ''city'' c (AList.update ''timestamp'' t kv)) k = map_of kv k"
  by (simp add: update_conv')

lemma nested_number:
  assumes "has_number (field kv k) j" "k \<noteq> ''city''" "k \<noteq> ''timestamp''"
  shows "\<exists>dv. bind_exn (bind_exn
            (getitem (JObj (AList.update ''city'' c (AList.update ''timestamp'' t kv))) k)
            (\<lambda>x. getitem x j)) (to_decimal w) = Inr dv"
proof -
  from assms(1) have "map_of kv k = Some (field kv k)"
    by (rule has_number_field)
  with assms(2,3) have "getitem (JObj (AList.update ''city'' c (AList.update ''timestamp'' t kv))) k
      = Inr (field kv k)"
    by (simp add: field_stamped)
  with has_number_decimal [OF assms(1)] show ?thesis
    by (simp add: bind_exn_def)
qed

lemma build_item_well_formed:
  assumes "well_formed kv"
  shows "\<exists>row. build_item w d ts
            (JObj (AList.update ''city'' c (AList.update ''timestamp'' t kv))) = Inr row
          \<and> (map_of kv ''visibility'' = None \<longrightarrow> visibility row = Decimal ''0'')"
proof -
  let ?data = "JObj (AList.update ''city'' c (AList.update ''timestamp'' t kv))"
  from assms have ef: "expected_fields kv"
    and vis: "map_of kv ''visibility'' = None \<or> has_number (JObj kv) ''visibility''"
    by (simp_all add: well_formed_def)
  from ef obtain temp where temp:
    "bind_exn (bind_exn (getitem ?data ''main'') (\<lambda>m. getitem m ''temp'')) (to_decimal w) = Inr temp"
    using nested_number [of kv "''main''" "''temp''" c t] by (auto simp: expected_fields_def)
  from ef obtain hum where hum:
    "bind_exn (bind_exn (getitem ?data ''main'') (\<lambda>m. getitem m ''humidity'')) (to_decimal w) = Inr hum"
    using nested_number [of kv "''main''" "''humidity''" c t] by (auto simp: expected_fields_def)
  from ef obtain pres where pres:
    "bind_exn (bind_exn (getitem ?data ''main'') (\<lambda>m. getitem m ''pressure'')) (to_decimal w) = Inr pres"
    using nested_number [of kv "''main''" "''pressure''" c t] by (auto simp: expected_fields_def)
  from ef obtain wind where wind:
    "bind_exn (bind_exn (getitem ?data ''wind'') (\<lambda>m. getitem m ''speed'')) (to_decimal w) = Inr wind"
    using nested_number [of kv "''wind''" "''speed''" c t] by (auto simp: expected_fields_def)
  from ef obtain clouds where clouds:
    "bind_exn (bind_exn (getitem ?data ''clouds'') (\<lambda>m. getitem m ''all'')) (to_decimal w) = Inr clouds"
    using nested_number [of kv "''clouds''" "''all''" c t] by (auto simp: expected_fields_def)
  from ef obtain rise where rise:
    "bind_exn (bind_exn (getitem ?data ''sys'') (\<lambda>m. getitem m ''sunrise'')) (to_decimal w) = Inr rise"
    using nested_number [of kv "''sys''" "''sunrise''" c t] by (auto simp: expected_fields_def)
  from ef obtain sset where sset:
    "bind_exn (bind_exn (getitem ?data ''sys'') (\<lambda>m. getitem m ''sunset'')) (to_decimal w) = Inr sset"
    using nested_number [of kv "''sys''" "''sunset''" c t] by (auto simp: expected_fields_def)
  from ef have "has_key (field kv ''sys'') ''country''"
    by (simp add: expected_fields_def)
  then obtain ctry where ctry:
    "bind_exn (getitem ?data ''sys'') (\<lambda>x. getitem x ''country'') = Inr ctry"
    using has_key_field [of kv "''sys''" "''country''"] has_key_getitem [of "field kv ''sys''" "''country''"]
    by (auto simp: bind_exn_def field_stamped)
  from ef obtain x xs where w: "field kv ''weather'' = JArr (x # xs)"
    and xm: "has_key x ''main''" and xd: "has_key x ''description''"
    by (auto simp: expected_fields_def split: json.splits list.splits)
  from w have mw: "map_of kv ''weather'' = Some (JArr (x # xs))"
    by (auto simp: field_def split: option.splits)
  from xm obtain cond where cond:
    "bind_exn (bind_exn (getitem ?data ''weather'') getitem0) (\<lambda>x. getitem x ''main'') = Inr cond"
    using has_key_getitem [of x "''main''"] by (auto simp: bind_exn_def field_stamped mw)
  from xd obtain descr where descr:
    "bind_exn (bind_exn (getitem ?data ''weather'') getitem0) (\<lambda>x. getitem x ''description'')
       = Inr descr"
    using has_key_getitem [of x "''description''"] by (auto simp: bind_exn_def field_stamped mw)
  from vis obtain v where v:
    "bind_exn (py_get ?data ''visibility'' (JInt 0)) (to_decimal w) = Inr v"
    and v0: "map_of kv ''visibility'' = None \<longrightarrow> v = Decimal ''0''"
    by (auto simp: bind_exn_def field_stamped str_int_def str_nat.simps
             split: option.splits json.splits)
  have "build_item w d ts ?data =
          Inr \<lparr>city = d, timestamp = ts, temperature = temp, humidity = hum,
               pressure = pres, weather_condition = cond, weather_description = descr,
               wind_speed = wind, visibility = v, cloudiness = clouds, country = ctry,
               sunrise = rise, sunset = sset\<rparr>"
    unfolding build_item_def temp hum pres cond descr wind v clouds ctry rise sset
    by (simp add: bind_exn_def)
  with v0 show ?thesis by simp
qed

lemma py_get_Inr: "py_get x k d = Inr v \<Longrightarrow> \<exists>kv. x = JObj kv"
  by (cases x) simp_all

lemma process_city_cases:
  assumes run: "process_city w k b d q st = (res, st')"
  obtains
    (no_write) e where "res = Inl e" "calls st' = calls st @ [HttpGet (api_url q k)]"
      "urlopen_json w (api_url q k) = Inl e
       \<or> (\<exists>data. urlopen_json w (api_url q k) = Inr data
            \<and> bind_exn (py_get data ''main'' (JObj [])) (\<lambda>m. py_get m ''temp'' (JStr ''N/A''))
                = Inl e)"
  | (object_failed) e req where "res = Inl e"
      "calls st' = calls st @ [HttpGet (api_url q k), PutObject req]"
      "Key req = s3_key d (now w (Suc (reads st))) (isoformat (now w (reads st)))"
      "\<exists>kv. urlopen_json w (api_url q k) = Inr (JObj kv)
         \<and> Body req = JObj (AList.update ''city'' (JStr d)
                    (AList.update ''timestamp'' (JStr (isoformat (now w (reads st)))) kv))"
      "put_object w req = Some e"
  | (row_failed) e req where "res = Inl e"
      "calls st' = calls st @ [HttpGet (api_url q k), PutObject req]"
      "Key req = s3_key d (now w (Suc (reads st))) (isoformat (now w (reads st)))"
      "\<exists>kv. urlopen_json w (api_url q k) = Inr (JObj kv)
         \<and> Body req = JObj (AList.update ''city'' (JStr d)
                    (AList.update ''timestamp'' (JStr (isoformat (now w (reads st)))) kv))"
      "put_object w req = None"
      "build_item w d (isoformat (now w (reads st))) (Body req) = Inl e"
  | (item_failed) e req row where "res = Inl e"
      "calls st' = calls st @ [HttpGet (api_url q k), PutObject req, PutItem row]"
      "Key req = s3_key d (now w (Suc (reads st))) (isoformat (now w (reads st)))"
      "\<exists>kv. urlopen_json w (api_url q k) = Inr (JObj kv)
         \<and> Body req = JObj (AList.update ''city'' (JStr d)
                    (AList.update ''timestamp'' (JStr (isoformat (now w (reads st)))) kv))"
      "put_object w req = None"
      "build_item w d (isoformat (now w (reads st))) (Body req) = Inr row"
      "put_item w row = Some e"
  | (success) req row temp where
      "res = Inr (success_result d (isoformat (now w (reads st))) temp)"
      "calls st' = calls st @ [HttpGet (api_url q k), PutObject req, PutItem row]"
      "Key req = s3_key d (now w (Suc (reads st))) (isoformat (now w (reads st)))"
      "\<exists>kv. urlopen_json w (api_url q k) = Inr (JObj kv)
         \<and> Body req = JObj (AList.update ''city'' (JStr d)
                    (AList.update ''timestamp'' (JStr (isoformat (now w (reads st)))) kv))"
      "put_object w req = None"
      "build_item w d (isoformat (now w (reads st))) (Body req) = Inr row"
      "put_item w row = None"
      "\<exists>data. urlopen_json w (api_url q k) = Inr data
         \<and> bind_exn (py_get data ''main'' (JObj [])) (\<lambda>m. py_get m ''temp'' (JStr ''N/A''))
             = Inr temp"
proof (cases "urlopen_json w (api_url q k)")
  case (Inl e)
  with run have "res = Inl e" "calls st' = calls st @ [HttpGet (api_url q k)]"
    by (auto simp: process_city_def Let_def do_call_def)
  with Inl show ?thesis by (intro no_write) auto
next
  case (Inr data)
  show ?thesis
  proof (cases "bind_exn (py_get data ''main'' (JObj [])) (\<lambda>m. py_get m ''temp'' (JStr ''N/A''))")
    case (Inl e)
    with run Inr have "res = Inl e" "calls st' = calls st @ [HttpGet (api_url q k)]"
      by (auto simp: process_city_def Let_def do_call_def)
    with Inl Inr show ?thesis by (intro no_write) auto
  next
    case temp: (Inr temp)
    then obtain kv where kv: "data = JObj kv"
      by (cases data) (simp_all add: bind_exn_def)
    define ts where "ts = isoformat (now w (reads st))"
    define req where "req = \<lparr>Bucket = b, Key = s3_key d (now w (Suc (reads st))) ts,
       Body = JObj (AList.update ''city'' (JStr d) (AList.update ''timestamp'' (JStr ts) kv)),
       ContentType = ''application/json'',
       Metadata = [(''city'', d), (''collection_time'', ts),
                   (''data_source'', ''openweathermap'')]\<rparr>"
    define st4 where "st4 = do_call (PutObject req) (tick (tick (do_call (HttpGet (api_url q k)) st)))"
    have c4: "calls st4 = calls st @ [HttpGet (api_url q k), PutObject req]"
      by (simp add: st4_def do_call_def tick_def)
    have key: "Key req = s3_key d (now w (Suc (reads st))) (isoformat (now w (reads st)))"
      by (simp add: req_def ts_def)
    have body: "\<exists>kv. urlopen_json w (api_url q k) = Inr (JObj kv)
         \<and> Body req = JObj (AList.update ''city'' (JStr d)
                    (AList.update ''timestamp'' (JStr (isoformat (now w (reads st)))) kv))"
      using Inr by (simp add: req_def kv ts_def)
    have prov: "\<exists>data. urlopen_json w (api_url q k) = Inr data
         \<and> bind_exn (py_get data ''main'' (JObj [])) (\<lambda>m. py_get m ''temp'' (JStr ''N/A''))
             = Inr temp"
      using Inr temp by simp
    have "process_city w k b d q st =
       (case put_object w req of
          Some e \<Rightarrow> (Inl e, st4)
        | None \<Rightarrow>
            (case build_item w d ts (Body req) of
               Inl e \<Rightarrow> (Inl e, st4)
             | Inr row \<Rightarrow>
                 (case put_item w row of
                    Some e \<Rightarrow> (Inl e, do_call (PutItem row) st4)
                  | None \<Rightarrow> (Inr (success_result d ts temp), do_call (PutItem row) st4))))"
      unfolding process_city_def Let_def req_def st4_def ts_def
      using Inr temp by (simp add: kv bind_exn_def do_call_def tick_def cong: option.case_cong sum.case_cong)
    with run have step: "(res, st') =
       (case put_object w req of
          Some e \<Rightarrow> (Inl e, st4)
        | None \<Rightarrow>
            (case build_item w d ts (Body req) of
               Inl e \<Rightarrow> (Inl e, st4)
             | Inr row \<Rightarrow>
                 (case put_item w row of
                    Some e \<Rightarrow> (Inl e, do_call (PutItem row) st4)
                  | None \<Rightarrow> (Inr (success_result d ts temp), do_call (PutItem row) st4))))"
      by simp
    show ?thesis
    proof (cases "put_object w req")
      case (Some e)
      with step c4 key body show ?thesis by (intro object_failed[of e req]) auto
    next
      case None
      show ?thesis
      proof (cases "build_item w d ts (Body req)")
        case (Inl e)
        with step None c4 key body show ?thesis
          by (intro row_failed[of e req]) (auto simp: ts_def)
      next
        case row: (Inr row)
        have c5: "calls (do_call (PutItem row) st4)
                  = calls st @ [HttpGet (api_url q k), PutObject req, PutItem row]"
          by (simp add: do_call_def c4)
        show ?thesis
        proof (cases "put_item w row")
          case (Some e)
          with step None row c5 key body show ?thesis
            by (intro item_failed[of e req row]) (auto simp: ts_def)
        next
          case pi: None
          with step None row c5 key body prov show ?thesis
            by (intro success[of temp req row]) (auto simp: ts_def)
        qed
      qed
    qed
  qed
qed

lemma is_success_results [simp]:
  "is_success (success_result d ts temp)" "\<not> is_success (error_result d e)"
  by (simp_all add: is_success_def success_result_def error_result_def)

lemma city_of_results [simp]:
  "getitem (success_result d ts temp) ''city'' = Inr (JStr d)"
  "getitem (error_result d e) ''city'' = Inr (JStr d)"
  by (simp_all add: success_result_def error_result_def)

lemma process_city_success:
  assumes fetch: "urlopen_json w (api_url q k) = Inr (JObj kv)"
    and wf: "well_formed kv"
    and s3: "\<forall>req. put_object w req = None"
    and ddb: "\<forall>row. put_item w row = None"
  shows "\<exists>temp req row st'.
           process_city w k b d q st
             = (Inr (success_result d (isoformat (now w (reads st))) temp), st')
           \<and> calls st' = calls st @ [HttpGet (api_url q k), PutObject req, PutItem row]
           \<and> (map_of kv ''visibility'' = None \<longrightarrow> visibility row = Decimal ''0'')"
proof -
  obtain res st' where run: "process_city w k b d q st = (res, st')"
    by (cases "process_city w k b d q st")
  from wf have "is_dict (field kv ''main'')"
    by (simp add: well_formed_def expected_fields_def)
  then have line61: "\<exists>temp. bind_exn (py_get (JObj kv) ''main'' (JObj []))
                       (\<lambda>m. py_get m ''temp'' (JStr ''N/A'')) = Inr temp"
    by (cases "field kv ''main''") (auto simp: field_def bind_exn_def split: option.splits)
  from run show ?thesis
  proof (cases rule: process_city_cases)
    case (no_write e)
    with fetch line61 show ?thesis by auto
  next
    case (object_failed e req)
    with s3 show ?thesis by simp
  next
    case (row_failed e req)
    from row_failed(4) fetch have "Body req = JObj (AList.update ''city'' (JStr d)
        (AList.update ''timestamp'' (JStr (isoformat (now w (reads st)))) kv))"
      by auto
    with row_failed(6) build_item_well_formed [OF wf, of w d "isoformat (now w (reads st))"
        "JStr d" "JStr (isoformat (now w (reads st)))"]
    show ?thesis by auto
  next
    case (item_failed e req row)
    with ddb show ?thesis by simp
  next
    case (success req row temp)
    from success(4) fetch have "Body req = JObj (AList.update ''city'' (JStr d)
        (AList.update ''timestamp'' (JStr (isoformat (now w (reads st)))) kv))"
      by auto
    with success(6) build_item_well_formed [OF wf, of w d "isoformat (now w (reads st))"
        "JStr d" "JStr (isoformat (now w (reads st)))"]
    have "map_of kv ''visibility'' = None \<longrightarrow> visibility row = Decimal ''0''"
      by auto
    with run success show ?thesis by auto
  qed
qed

lemma city_step_entry:
  "(\<exists>ts temp. fst (city_step w k b i q st) = success_result (city_display ! i) ts temp)
   \<or> (\<exists>e. fst (city_step w k b i q st) = error_result (city_display ! i) e)"
  by (auto simp: city_step_def split: prod.splits sum.splits elim!: process_city_cases)

lemma city_step_process:
  "\<exists>out st'. process_city w k b (city_display ! i) q st = (out, st')
     \<and> snd (city_step w k b i q st) = st'
     \<and> fst (city_step w k b i q st)
         = (case out of Inr r \<Rightarrow> r | Inl e \<Rightarrow> error_result (city_display ! i) e)"
  by (auto simp: city_step_def split: prod.splits sum.splits)

lemma city_step_urls:
  "http_urls (calls (snd (city_step w k b i q st))) = http_urls (calls st) @ [api_url q k]"
proof -
  have app: "\<And>xs ys. http_urls (xs @ ys) = http_urls xs @ http_urls ys"
    subgoal for xs ys by (induction xs rule: http_urls.induct) simp_all
    done
  obtain res st' where run: "process_city w k b (city_display ! i) q st = (res, st')"
    by (cases "process_city w k b (city_display ! i) q st")
  then have "http_urls (calls st') = http_urls (calls st) @ [api_url q k]"
    by (cases rule: process_city_cases) (simp_all add: app)
  with run show ?thesis
    by (simp add: city_step_def split: sum.splits)
qed

lemma city_step_fetch_failed:
  "urlopen_json w (api_url q k) = Inl e \<Longrightarrow>
   fst (city_step w k b i q st) = error_result (city_display ! i) e"
  by (simp add: city_step_def process_city_def Let_def)

lemma city_step_success:
  assumes "urlopen_json w (api_url q k) = Inr (JObj kv)" "well_formed kv"
    "\<forall>req. put_object w req = None" "\<forall>row. put_item w row = None"
  shows "is_success (fst (city_step w k b i q st))"
  using process_city_success [OF assms, of b "city_display ! i" st]
  by (auto simp: city_step_def)

lemma lambda_handler_summary:
  assumes "passes_config w k b"
  shows "lambda_handler event context w st =
     (let s1 = city_step w k b 0 ''Pretoria'' st;
          s2 = city_step w k b 1 ''Cape%20Town'' (snd s1);
          s3 = city_step w k b 2 ''Johannesburg'' (snd s2);
          s4 = city_step w k b 3 ''Durban'' (snd s3);
          results = [fst s1, fst s2, fst s3, fst s4]
      in (Inr \<lparr>statusCode = 200,
               body = summary results
                        (format_1f (of_nat (length (filter is_success results)) / 4 * 100))
                        (isoformat (now w (reads (snd s4))))\<rparr>,
          tick (snd s4)))"
  using assms
  by (simp add: passes_config_def lambda_handler_def lambda_handler_try_def
        for_cities_unfold Let_def)

lemma status_200_config:
  assumes "lambda_handler event context w st = (Inr r, st')" "statusCode r = 200"
  shows "\<exists>k b. passes_config w k b"
  using assms
  by (auto simp: passes_config_def lambda_handler_def lambda_handler_try_def fatal_def
        missing_env_def for_cities_unfold Let_def split: option.splits if_splits)

lemma round_half_even_near: "\<bar>of_int (round_half_even x) - x\<bar> \<le> 1 / 2"
proof -
  have "of_int \<lfloor>x\<rfloor> \<le> x" and "x < of_int \<lfloor>x\<rfloor> + 1"
    by linarith+
  then show ?thesis
    by (auto simp: round_half_even_def Let_def abs_le_iff)
qed

lemma sample_item:
  "build_item w d ts (JObj (AList.update ''city'' c (AList.update ''timestamp'' t sample_fields)))
   = Inr \<lparr>city = d, timestamp = ts, temperature = Decimal ''23.456'', humidity = Decimal ''65'',
          pressure = Decimal ''1013'', weather_condition = JStr ''Clear'',
          weather_description = JStr ''clear sky'', wind_speed = Decimal ''3.6'',
          visibility = Decimal ''0'', cloudiness = Decimal ''0'', country = JStr ''ZA'',
          sunrise = Decimal ''1709611200'', sunset = Decimal ''1709656800''\<rparr>"
  by (simp add: build_item_def bind_exn_def sample_fields_def str_int_def str_nat.simps)

lemma sample_iso: "isoformat sample_instant = ''2024-03-05T10:00:00''"
  by (simp add: isoformat_def pad_def sample_instant_def str_nat.simps)

lemma bind_exn_simps [simp]:
  "bind_exn (Inr v) f = f v" "bind_exn (Inl e) f = Inl e"
  by (simp_all add: bind_exn_def)

lemma sample_temp:
  "bind_exn (py_get (JObj sample_fields) ''main'' (JObj []))
     (\<lambda>m. py_get m ''temp'' (JStr ''N/A'')) = Inr (JFloat ''23.456'')"
  by (simp add: sample_fields_def)

lemma sample_step:
  "city_step sample_world ''key'' ''bucket'' i q st =
     (success_result (city_display ! i) ''2024-03-05T10:00:00'' (JFloat ''23.456''),
      do_call (PutItem \<lparr>city = city_display ! i, timestamp = ''2024-03-05T10:00:00'',
          temperature = Decimal ''23.456'', humidity = Decimal ''65'',
          pressure = Decimal ''1013'', weather_condition = JStr ''Clear'',
          weather_description = JStr ''clear sky'', wind_speed = Decimal ''3.6'',
          visibility = Decimal ''0'', cloudiness = Decimal ''0'', country = JStr ''ZA'',
          sunrise = Decimal ''1709611200'', sunset = Decimal ''1709656800''\<rparr>)
       (do_call (PutObject \<lparr>Bucket = ''bucket'',
           Key = s3_key (city_display ! i) sample_instant ''2024-03-05T10:00:00'',
           Body = JObj (AList.update ''city'' (JStr (city_display ! i))
                    (AList.update ''timestamp'' (JStr ''2024-03-05T10:00:00'') sample_fields)),
           ContentType = ''application/json'',
           Metadata = [(''city'', city_display ! i),
                       (''collection_time'', ''2024-03-05T10:00:00''),
                       (''data_source'', ''openweathermap'')]\<rparr>)
         (tick (tick (do_call (HttpGet (api_url q ''key'')) st)))))"
  by (simp add: city_step_def process_city_def Let_def sample_world_def sample_item sample_iso
        sample_temp do_call_def tick_def del: py_get.simps)

lemma format_1f_quarters:
  "format_1f 0 = ''0.0''" "format_1f 25 = ''25.0''" "format_1f 50 = ''50.0''"
  "format_1f 75 = ''75.0''" "format_1f 100 = ''100.0''"
  by (simp_all add: format_1f_def round_half_even_def str_int_def str_nat.simps)

lemma sample_run:
  "\<exists>st'. lambda_handler () () sample_world start =
     (Inr \<lparr>statusCode = 200,
           body = JObj [(''message'', JStr ''Weather data collection completed''),
             (''processed_cities'', JInt 4),
             (''successful_cities'', JInt 4),
             (''success_rate'', JStr ''100.0%''),
             (''execution_time'', JStr ''2024-03-05T10:00:00''),
             (''results'', JArr
                [success_result ''Pretoria'' ''2024-03-05T10:00:00'' (JFloat ''23.456''),
                 success_result ''Cape Town'' ''2024-03-05T10:00:00'' (JFloat ''23.456''),
                 success_result ''Johannesburg'' ''2024-03-05T10:00:00'' (JFloat ''23.456''),
                 success_result ''Durban'' ''2024-03-05T10:00:00'' (JFloat ''23.456'')])]\<rparr>,
      st')"
proof -
  have pc: "passes_config sample_world ''key'' ''bucket''"
    by (simp add: passes_config_def sample_world_def)
  have now: "\<And>n. now sample_world n = sample_instant"
    by (simp add: sample_world_def)
  show ?thesis
    unfolding lambda_handler_summary [OF pc] Let_def sample_step
    by (simp add: summary_def city_display_def now sample_iso format_1f_quarters)
qed

lemma lambda_handler_try_raises:
  assumes "lambda_handler_try event context w st = (Inl e, st1)"
  shows "st1 = st \<and> (boto3_client_s3 w = Some e \<or> boto3_resource_dynamodb w = Some e
                     \<or> dynamodb_Table w = Some e)"
  using assms
  by (auto simp: lambda_handler_try_def for_cities_unfold Let_def
           split: option.splits if_splits)

lemma all_less_4: "(\<forall>i<(4::nat). P i) \<longleftrightarrow> P 0 \<and> P 1 \<and> P 2 \<and> P 3"
proof -
  have "\<And>i::nat. i < 4 \<longleftrightarrow> i = 0 \<or> i = 1 \<or> i = 2 \<or> i = 3" by arith
  then show ?thesis by auto
qed

lemma city_step_city:
  "getitem (fst (city_step w k b i q st)) ''city'' = Inr (JStr (city_display ! i))"
  using city_step_entry [of w k b i q st] by auto

lemma city_step_status:
  "getitem (fst (city_step w k b i q st)) ''status'' = Inr (JStr ''success'')
   \<or> getitem (fst (city_step w k b i q st)) ''status'' = Inr (JStr ''error'')"
  using city_step_entry [of w k b i q st]
  by (auto simp: success_result_def error_result_def)

lemma display_names:
  "city_display ! 0 = ''Pretoria''" "city_display ! 1 = ''Cape Town''"
  "city_display ! 2 = ''Johannesburg''" "city_display ! 3 = ''Durban''"
  "city_display ! Suc 0 = ''Cape Town''"
  by (simp_all add: city_display_def)

lemma query_names:
  "cities ! 0 = ''Pretoria''" "cities ! 1 = ''Cape%20Town''"
  "cities ! 2 = ''Johannesburg''" "cities ! 3 = ''Durban''"
  "cities ! Suc 0 = ''Cape%20Town''"
  by (simp_all add: cities_def)

lemma format_1f_tenths:
  "\<exists>t. format_1f x = str_int (t div 10) @ ''.'' @ str_int (t mod 10)
       \<and> \<bar>of_int t / 10 - x\<bar> \<le> 1 / 20"
proof -
  have "\<bar>of_int (round_half_even (x * 10)) - x * 10\<bar> \<le> 1 / 2"
    by (rule round_half_even_near)
  then have "\<bar>of_int (round_half_even (x * 10)) / 10 - x\<bar> \<le> 1 / 20"
    by linarith
  then show ?thesis
    by (auto simp: format_1f_def Let_def)
qed

lemma http_urls_append: "http_urls (xs @ ys) = http_urls xs @ http_urls ys"
  by (induction xs rule: http_urls.induct) simp_all

lemma sample_well_formed: "well_formed sample_fields"
  by (simp add: well_formed_def expected_fields_def field_def sample_fields_def)

lemma build_item_stamp:
  "build_item w d ts data = Inr row \<Longrightarrow> city row = d \<and> timestamp row = ts"
  unfolding build_item_def bind_exn_def
  by (auto split: sum.splits)

lemma for_cities_single:
  "i < length city_display \<Longrightarrow>
   for_cities w k b [(i, q)] results dn st =
     (Inr (results @ [fst (city_step w k b i q st)]), snd (city_step w k b i q st))"
  by (simp add: for_cities_round del: for_cities.simps(2))

lemma sample_process:
  assumes "urlopen_json w (api_url q ''key'') = Inr (JObj sample_fields)"
    and "\<And>n. now w n = sample_instant"
    and "put_object w (sample_request d) = None"
  shows "process_city w ''key'' ''bucket'' d q st =
     (case put_item w (sample_row d) of
        Some e \<Rightarrow> Inl e
      | None \<Rightarrow> Inr (success_result d ''2024-03-05T10:00:00'' (JFloat ''23.456'')),
      st\<lparr>calls := calls st @ [HttpGet (api_url q ''key''), PutObject (sample_request d),
                                 PutItem (sample_row d)],
         reads := Suc (Suc (reads st))\<rparr>)"
  using assms
  by (simp add: process_city_def Let_def sample_item sample_iso sample_temp do_call_def
        tick_def sample_request_def sample_row_def split: option.splits del: py_get.simps)

lemma process_city_payload:
  assumes fetch: "urlopen_json w (api_url q k) = Inr (JObj kv)"
    and temp: "current_temp (JObj kv) = Inr temp"
  shows "process_city w k b d q st =
     (case put_object w (put_request w b d kv (reads st)) of
        Some e \<Rightarrow>
          (Inl e, st\<lparr>calls := calls st @ [HttpGet (api_url q k),
                                           PutObject (put_request w b d kv (reads st))],
                     reads := Suc (Suc (reads st))\<rparr>)
      | None \<Rightarrow>
          (case build_item w d (isoformat (now w (reads st)))
                  (Body (put_request w b d kv (reads st))) of
             Inl e \<Rightarrow>
               (Inl e, st\<lparr>calls := calls st @ [HttpGet (api_url q k),
                                                PutObject (put_request w b d kv (reads st))],
                          reads := Suc (Suc (reads st))\<rparr>)
           | Inr row \<Rightarrow>
               (case put_item w row of
                  Some e \<Rightarrow> Inl e
                | None \<Rightarrow> Inr (success_result d (isoformat (now w (reads st))) temp),
                st\<lparr>calls := calls st @ [HttpGet (api_url q k),
                                          PutObject (put_request w b d kv (reads st)),
                                          PutItem row],
                    reads := Suc (Suc (reads st))\<rparr>)))"
  using fetch temp [unfolded current_temp_def]
  unfolding process_city_def Let_def put_request_def
  by (simp add: do_call_def tick_def split: option.splits sum.splits
        cong: option.case_cong sum.case_cong del: py_get.simps)

lemma current_temp_dict: "current_temp data = Inr temp \<Longrightarrow> \<exists>kv. data = JObj kv"
  by (cases data) (simp_all add: current_temp_def)

lemma process_city_no_payload:
  assumes "urlopen_json w (api_url q k) = Inl e
           \<or> (\<exists>data. urlopen_json w (api_url q k) = Inr data \<and> current_temp data = Inl e)"
  shows "process_city w k b d q st = (Inl e, st\<lparr>calls := calls st @ [HttpGet (api_url q k)]\<rparr>)"
  using assms
  by (auto simp: process_city_def Let_def do_call_def current_temp_def)

lemma city_step_process_city:
  "fst (city_step w k b i q st) =
     (case fst (process_city w k b (city_display ! i) q st) of
        Inr r \<Rightarrow> r
      | Inl e \<Rightarrow> error_entry (city_display ! i) (str_exn e))"
  "snd (city_step w k b i q st) = snd (process_city w k b (city_display ! i) q st)"
  by (simp_all add: city_step_def error_result_def error_entry_def split: prod.splits sum.splits)

lemma round_outcome:
  fixes w k b i q st
  defines "entry \<equiv> fst (city_step w k b i q st)"
    and "d \<equiv> city_display ! i"
  shows "(\<forall>e. urlopen_json w (api_url q k) = Inl e \<longrightarrow> entry = error_entry d (str_exn e))
     \<and> (\<forall>data e. urlopen_json w (api_url q k) = Inr data \<and> current_temp data = Inl e \<longrightarrow>
           entry = error_entry d (str_exn e))
     \<and> (\<forall>kv temp. urlopen_json w (api_url q k) = Inr (JObj kv)
            \<and> current_temp (JObj kv) = Inr temp \<longrightarrow>
           entry =
             (case put_object w (put_request w b d kv (reads st)) of
                Some e \<Rightarrow> error_entry d (str_exn e)
              | None \<Rightarrow>
                  (case build_item w d (isoformat (now w (reads st)))
                          (Body (put_request w b d kv (reads st))) of
                     Inl e \<Rightarrow> error_entry d (str_exn e)
                   | Inr row \<Rightarrow>
                       (case put_item w row of
                          Some e \<Rightarrow> error_entry d (str_exn e)
                        | None \<Rightarrow>
                            JObj [(''city'', JStr d), (''status'', JStr ''success''),
                                  (''timestamp'', JStr (isoformat (now w (reads st)))),
                                  (''temperature'', temp)]))))
     \<and> reads (snd (city_step w k b i q st)) =
         reads st + (if \<exists>data temp. urlopen_json w (api_url q k) = Inr data
                          \<and> current_temp data = Inr temp then 2 else 0)"
proof (intro conjI allI impI)
  fix e assume "urlopen_json w (api_url q k) = Inl e"
  then show "entry = error_entry d (str_exn e)"
    by (simp add: entry_def d_def city_step_process_city process_city_no_payload)
next
  fix data e
  assume "urlopen_json w (api_url q k) = Inr data \<and> current_temp data = Inl e"
  then have "process_city w k b d q st
      = (Inl e, st\<lparr>calls := calls st @ [HttpGet (api_url q k)]\<rparr>)"
    by (intro process_city_no_payload) blast
  then show "entry = error_entry d (str_exn e)"
    by (simp add: entry_def d_def city_step_process_city)
next
  fix kv temp
  assume "urlopen_json w (api_url q k) = Inr (JObj kv) \<and> current_temp (JObj kv) = Inr temp"
  then show "entry =
             (case put_object w (put_request w b d kv (reads st)) of
                Some e \<Rightarrow> error_entry d (str_exn e)
              | None \<Rightarrow>
                  (case build_item w d (isoformat (now w (reads st)))
                          (Body (put_request w b d kv (reads st))) of
                     Inl e \<Rightarrow> error_entry d (str_exn e)
                   | Inr row \<Rightarrow>
                       (case put_item w row of
                          Some e \<Rightarrow> error_entry d (str_exn e)
                        | None \<Rightarrow>
                            JObj [(''city'', JStr d), (''status'', JStr ''success''),
                                  (''timestamp'', JStr (isoformat (now w (reads st)))),
                                  (''temperature'', temp)])))"
    by (simp add: entry_def d_def city_step_process_city process_city_payload
          success_result_def split: option.splits sum.splits)
next
  show "reads (snd (city_step w k b i q st)) =
         reads st + (if \<exists>data temp. urlopen_json w (api_url q k) = Inr data
                          \<and> current_temp data = Inr temp then 2 else 0)"
  proof (cases "urlopen_json w (api_url q k)")
    case (Inl e)
    then show ?thesis
      by (simp add: city_step_process_city process_city_no_payload)
  next
    case (Inr data)
    show ?thesis
    proof (cases "current_temp data")
      case (Inl e)
      with Inr have "process_city w k b (city_display ! i) q st
          = (Inl e, st\<lparr>calls := calls st @ [HttpGet (api_url q k)]\<rparr>)"
        by (intro process_city_no_payload) blast
      with Inr Inl show ?thesis
        by (simp add: city_step_process_city)
    next
      case temp: (Inr temp)
      then obtain kv where "data = JObj kv"
        using current_temp_dict by blast
      with Inr temp show ?thesis
        by (simp add: city_step_process_city process_city_payload
              split: option.splits sum.splits)
    qed
  qed
qed

lemma round_states:
  fixes w k b st
  defines "s1 \<equiv> city_step w k b 0 ''Pretoria'' st"
  defines "s2 \<equiv> city_step w k b 1 ''Cape%20Town'' (snd s1)"
  defines "s3 \<equiv> city_step w k b 2 ''Johannesburg'' (snd s2)"
  defines "s4 \<equiv> city_step w k b 3 ''Durban'' (snd s3)"
  shows "round_state w k b st 0 = st" "round_state w k b st 1 = snd s1"
    "round_state w k b st 2 = snd s2" "round_state w k b st 3 = snd s3"
    "round_state w k b st 4 = snd s4"
  by (simp_all add: eval_nat_numeral s1_def s2_def s3_def s4_def city_step_process_city
        cities_def city_display_def)

lemma getitem_stamped:
  "k \<noteq> ''city'' \<Longrightarrow> k \<noteq> ''timestamp'' \<Longrightarrow>
   getitem (JObj (AList.update ''city'' c (AList.update ''timestamp'' t kv))) k
     = getitem (JObj kv) k"
  by (simp add: field_stamped)

lemma py_get_stamped:
  "k \<noteq> ''city'' \<Longrightarrow> k \<noteq> ''timestamp'' \<Longrightarrow>
   py_get (JObj (AList.update ''city'' c (AList.update ''timestamp'' t kv))) k dflt
     = py_get (JObj kv) k dflt"
  by (simp add: field_stamped)

lemma build_item_columns:
  assumes "build_item w d ts data = Inr row"
  shows "bind_exn (bind_exn (getitem data ''main'') (\<lambda>m. getitem m ''temp'')) (to_decimal w)
           = Inr (temperature row)"
    and "bind_exn (bind_exn (getitem data ''main'') (\<lambda>m. getitem m ''humidity'')) (to_decimal w)
           = Inr (humidity row)"
    and "bind_exn (bind_exn (getitem data ''main'') (\<lambda>m. getitem m ''pressure'')) (to_decimal w)
           = Inr (pressure row)"
    and "bind_exn (bind_exn (getitem data ''wind'') (\<lambda>m. getitem m ''speed'')) (to_decimal w)
           = Inr (wind_speed row)"
    and "bind_exn (py_get data ''visibility'' (JInt 0)) (to_decimal w) = Inr (visibility row)"
    and "bind_exn (bind_exn (getitem data ''clouds'') (\<lambda>m. getitem m ''all'')) (to_decimal w)
           = Inr (cloudiness row)"
    and "bind_exn (bind_exn (getitem data ''sys'') (\<lambda>m. getitem m ''sunrise'')) (to_decimal w)
           = Inr (sunrise row)"
    and "bind_exn (bind_exn (getitem data ''sys'') (\<lambda>m. getitem m ''sunset'')) (to_decimal w)
           = Inr (sunset row)"
  using assms unfolding build_item_def bind_exn_def
  by (auto split: sum.splits)

section \<open>The failure boundary\<close>

text \<open>
  Claim C2. Whatever the event, the context and the external services do, the handler
  returns a response and raises nothing. When an exception leaves the body of the outer
  \<^verbatim>\<open>try\<close>, the response has status 500 and a body of exactly three entries: the fixed
  label, the text of the exception and the instant read from the clock; it carries no
  per-city results, and no HTTP or storage call has been made. A storage client that
  cannot be constructed is such an exception.
\<close>

theorem C2_never_raises:
  "\<exists>r st'. lambda_handler event context w st = (Inr r, st')
     \<and> (\<forall>e st1. lambda_handler_try event context w st = (Inl e, st1) \<longrightarrow>
           r = \<lparr>statusCode = 500,
                body = JObj [(''error'', JStr ''Fatal error in weather data collection''),
                             (''details'', JStr (str_exn e)),
                             (''execution_time'', JStr (isoformat (now w (reads st))))]\<rparr>
           \<and> calls st' = calls st)
     \<and> (\<forall>e. boto3_client_s3 w = Some e \<longrightarrow>
           lambda_handler_try event context w st = (Inl e, st))
     \<and> (\<forall>e. boto3_client_s3 w = None \<and> boto3_resource_dynamodb w = Some e \<longrightarrow>
           lambda_handler_try event context w st = (Inl e, st))"
proof (cases "lambda_handler_try event context w st")
  case (Pair out st1)
  show ?thesis
  proof (cases out)
    case (Inl e)
    with Pair have "st1 = st"
      using lambda_handler_try_raises [of event "context" w st e st1] by simp
    with Pair Inl show ?thesis
      by (auto simp: lambda_handler_def fatal_def tick_def lambda_handler_try_def)
  next
    case (Inr r)
    with Pair show ?thesis
      by (auto simp: lambda_handler_def lambda_handler_try_def)
  qed
qed

theorem C2_never_raises_witness:
  "boto3_client_s3 (sample_world\<lparr>boto3_client_s3 := Some no_region\<rparr>) = Some no_region
   \<and> lambda_handler () () (sample_world\<lparr>boto3_client_s3 := Some no_region\<rparr>) start =
       (Inr \<lparr>statusCode = 500,
             body = JObj [(''error'', JStr ''Fatal error in weather data collection''),
                          (''details'', JStr ''You must specify a region.''),
                          (''execution_time'', JStr ''2024-03-05T10:00:00'')]\<rparr>,
        tick start)"
  using C2_never_raises [of "()" "()" "sample_world\<lparr>boto3_client_s3 := Some no_region\<rparr>" start]
  by (simp add: lambda_handler_def lambda_handler_try_def sample_world_def no_region_def
        fatal_def start_def isoformat_def pad_def sample_instant_def str_nat.simps)

section \<open>Configuration checks\<close>

text \<open>
  Claim C3, as stated: whenever the credential is absent the handler answers 400. In the
  run below the credential is absent and the object-store client cannot be constructed;
  the clients are constructed before the environment is read, so the answer is 500.
\<close>

theorem C3_counterexample:
  "environ (sample_world\<lparr>environ := Map.empty, boto3_client_s3 := Some no_region\<rparr>)
     ''WEATHER_API_KEY'' = None
   \<and> fst (lambda_handler () ()
            (sample_world\<lparr>environ := Map.empty, boto3_client_s3 := Some no_region\<rparr>) start)
     = Inr \<lparr>statusCode = 500,
            body = JObj [(''error'', JStr ''Fatal error in weather data collection''),
                         (''details'', JStr ''You must specify a region.''),
                         (''execution_time'', JStr ''2024-03-05T10:00:00'')]\<rparr>"
  by (simp add: lambda_handler_def lambda_handler_try_def sample_world_def no_region_def
        fatal_def start_def isoformat_def pad_def sample_instant_def str_nat.simps)

text \<open>
  Claim C3, amended. When the three storage handles are constructed without error and
  the credential is absent, the handler answers 400 with the body
  \<^verbatim>\<open>{"error": "Missing WEATHER_API_KEY environment variable"}\<close>; when the credential is
  set and the bucket name is absent it answers 400 with the message for
  \<^verbatim>\<open>S3_BUCKET_NAME\<close>. In both cases the state is returned as it was: no HTTP call, no
  storage call and no clock read has been made.
\<close>

theorem C3_missing_config:
  assumes "boto3_client_s3 w = None" and "boto3_resource_dynamodb w = None"
    and "dynamodb_Table w = None"
  shows "(environ w ''WEATHER_API_KEY'' = None \<longrightarrow>
            lambda_handler event context w st =
              (Inr \<lparr>statusCode = 400,
                    body = JObj [(''error'',
                      JStr ''Missing WEATHER_API_KEY environment variable'')]\<rparr>, st))
       \<and> ((\<exists>k. environ w ''WEATHER_API_KEY'' = Some k \<and> k \<noteq> [])
            \<and> environ w ''S3_BUCKET_NAME'' = None \<longrightarrow>
            lambda_handler event context w st =
              (Inr \<lparr>statusCode = 400,
                    body = JObj [(''error'',
                      JStr ''Missing S3_BUCKET_NAME environment variable'')]\<rparr>, st))"
  using assms
  by (auto simp: lambda_handler_def lambda_handler_try_def missing_env_def)

theorem C3_missing_config_witness:
  "boto3_client_s3 (sample_world\<lparr>environ := Map.empty\<rparr>) = None
   \<and> boto3_resource_dynamodb (sample_world\<lparr>environ := Map.empty\<rparr>) = None
   \<and> dynamodb_Table (sample_world\<lparr>environ := Map.empty\<rparr>) = None
   \<and> environ (sample_world\<lparr>environ := Map.empty\<rparr>) ''WEATHER_API_KEY'' = None
   \<and> lambda_handler () () (sample_world\<lparr>environ := Map.empty\<rparr>) start =
       (Inr \<lparr>statusCode = 400,
             body = JObj [(''error'',
               JStr ''Missing WEATHER_API_KEY environment variable'')]\<rparr>, start)
   \<and> calls start = []"
  using C3_missing_config [of "sample_world\<lparr>environ := Map.empty\<rparr>" "()" "()" start]
  by (simp add: sample_world_def start_def)

section \<open>The summary response\<close>

text \<open>
  Claim C10. Whenever the handler answers 200, the \<open>results\<close> list of the body has
  exactly four entries, their \<open>city\<close> fields are Pretoria, Cape Town, Johannesburg and
  Durban in this order, whether the entry reports success or error, and
  \<open>processed_cities\<close> is 4.
\<close>

theorem C10_results_order:
  assumes "lambda_handler event context w st = (Inr r, st')" and "statusCode r = 200"
  shows "\<exists>results.
           getitem (body r) ''results'' = Inr (JArr results)
         \<and> length results = 4
         \<and> map (\<lambda>x. getitem x ''city'') results
             = [Inr (JStr ''Pretoria''), Inr (JStr ''Cape Town''),
                Inr (JStr ''Johannesburg''), Inr (JStr ''Durban'')]
         \<and> (\<forall>x \<in> set results. getitem x ''status'' = Inr (JStr ''success'')
                               \<or> getitem x ''status'' = Inr (JStr ''error''))
         \<and> getitem (body r) ''processed_cities'' = Inr (JInt 4)"
proof -
  from assms obtain k b where pc: "passes_config w k b"
    using status_200_config [of event "context" w st r st'] by auto
  show ?thesis
    using assms(1) unfolding lambda_handler_summary [OF pc] Let_def
    using city_step_status [of w k b]
    by (auto simp: summary_def city_step_city display_names)
qed

theorem C10_results_order_witness:
  "\<exists>r st'. lambda_handler () () sample_world start = (Inr r, st') \<and> statusCode r = 200
     \<and> (\<exists>results.
           getitem (body r) ''results'' = Inr (JArr results)
         \<and> length results = 4
         \<and> map (\<lambda>x. getitem x ''city'') results
             = [Inr (JStr ''Pretoria''), Inr (JStr ''Cape Town''),
                Inr (JStr ''Johannesburg''), Inr (JStr ''Durban'')]
         \<and> (\<forall>x \<in> set results. getitem x ''status'' = Inr (JStr ''success'')
                               \<or> getitem x ''status'' = Inr (JStr ''error''))
         \<and> getitem (body r) ''processed_cities'' = Inr (JInt 4))"
proof -
  from sample_run obtain r st' where
    run: "lambda_handler () () sample_world start = (Inr r, st')" and ok: "statusCode r = 200"
    by fastforce
  from C10_results_order [OF run ok] run ok show ?thesis
    by (intro exI [of _ r] exI [of _ st'] conjI)
qed

text \<open>
  Claim C4. On a 200 return the body holds, in this order, the message, the number of
  processed cities (4), the number of successful ones, the success rate, the instant
  read from the clock last, and the list of per-city results. The rate is the text
  \<open>d.f%\<close> with one decimal, whose value \<open>t / 10\<close> is within one twentieth of
  successes / total \<times> 100, that is, rounded to one decimal place. When all four cities
  succeed, the count of successes is 4 and the rate is \<^verbatim>\<open>100.0%\<close>.
\<close>

theorem C4_summary:
  assumes "lambda_handler event context w st = (Inr r, st')" and "statusCode r = 200"
  shows "\<exists>results k rate t n.
           body r = JObj [(''message'', JStr ''Weather data collection completed''),
                          (''processed_cities'', JInt (int (length results))),
                          (''successful_cities'', JInt (int k)),
                          (''success_rate'', JStr (rate @ ''%'')),
                          (''execution_time'', JStr (isoformat (now w n))),
                          (''results'', JArr results)]
         \<and> length results = 4
         \<and> k = length (filter is_success results)
         \<and> rate = str_int (t div 10) @ ''.'' @ str_int (t mod 10)
         \<and> \<bar>of_int t / 10 - (of_nat k / of_nat (length results) * 100 :: rat)\<bar> \<le> 1 / 20
         \<and> reads st' = Suc n
         \<and> ((\<forall>x \<in> set results. is_success x) \<longrightarrow> k = 4 \<and> rate = ''100.0'')"
proof -
  from assms obtain k b where pc: "passes_config w k b"
    using status_200_config [of event "context" w st r st'] by auto
  define s1 where "s1 = city_step w k b 0 ''Pretoria'' st"
  define s2 where "s2 = city_step w k b 1 ''Cape%20Town'' (snd s1)"
  define s3 where "s3 = city_step w k b 2 ''Johannesburg'' (snd s2)"
  define s4 where "s4 = city_step w k b 3 ''Durban'' (snd s3)"
  define results where "results = [fst s1, fst s2, fst s3, fst s4]"
  define n where "n = length (filter is_success results)"
  have len: "length results = 4"
    by (simp add: results_def)
  define x :: rat where "x = of_nat n / 4 * 100"
  from assms(1) have r: "r = \<lparr>statusCode = 200,
      body = summary results (format_1f x) (isoformat (now w (reads (snd s4))))\<rparr>"
    and st': "st' = tick (snd s4)"
    unfolding lambda_handler_summary [OF pc] Let_def
    by (simp_all add: s1_def s2_def s3_def s4_def results_def n_def x_def)
  obtain t where t: "format_1f x = str_int (t div 10) @ ''.'' @ str_int (t mod 10)"
    and near: "\<bar>of_int t / 10 - x\<bar> \<le> 1 / 20"
    using format_1f_tenths [of x] by auto
  have x: "of_nat n / of_nat (length results) * 100 = x"
    by (simp add: x_def len)
  have all: "(\<forall>x \<in> set results. is_success x) \<longrightarrow>
      n = 4 \<and> str_int (t div 10) @ ''.'' @ str_int (t mod 10) = ''100.0''"
  proof
    assume "\<forall>x \<in> set results. is_success x"
    then have "n = 4"
      by (simp add: n_def results_def)
    then have "x = 100"
      by (simp add: x_def)
    with t \<open>n = 4\<close> show "n = 4 \<and> str_int (t div 10) @ ''.'' @ str_int (t mod 10) = ''100.0''"
      by (simp add: format_1f_quarters)
  qed
  have b: "body r = JObj [(''message'', JStr ''Weather data collection completed''),
                          (''processed_cities'', JInt (int (length results))),
                          (''successful_cities'', JInt (int n)),
                          (''success_rate'',
                           JStr ((str_int (t div 10) @ ''.'' @ str_int (t mod 10)) @ ''%'')),
                          (''execution_time'', JStr (isoformat (now w (reads (snd s4))))),
                          (''results'', JArr results)]"
    unfolding r summary_def t n_def by simp
  have rd: "reads st' = Suc (reads (snd s4))"
    by (simp add: st' tick_def)
  from b len near all rd show ?thesis
    unfolding x [symmetric] n_def by blast
qed

theorem C4_summary_witness:
  "lambda_handler () () sample_world start =
     (Inr \<lparr>statusCode = 200,
           body = JObj [(''message'', JStr ''Weather data collection completed''),
             (''processed_cities'', JInt 4),
             (''successful_cities'', JInt 4),
             (''success_rate'', JStr ''100.0%''),
             (''execution_time'', JStr ''2024-03-05T10:00:00''),
             (''results'', JArr
                [success_result ''Pretoria'' ''2024-03-05T10:00:00'' (JFloat ''23.456''),
                 success_result ''Cape Town'' ''2024-03-05T10:00:00'' (JFloat ''23.456''),
                 success_result ''Johannesburg'' ''2024-03-05T10:00:00'' (JFloat ''23.456''),
                 success_result ''Durban'' ''2024-03-05T10:00:00'' (JFloat ''23.456'')])]\<rparr>,
      snd (lambda_handler () () sample_world start))
   \<and> (\<exists>n. reads (snd (lambda_handler () () sample_world start)) = Suc n)"
proof -
  from sample_run obtain st' where
    run: "lambda_handler () () sample_world start =
     (Inr \<lparr>statusCode = 200,
           body = JObj [(''message'', JStr ''Weather data collection completed''),
             (''processed_cities'', JInt 4),
             (''successful_cities'', JInt 4),
             (''success_rate'', JStr ''100.0%''),
             (''execution_time'', JStr ''2024-03-05T10:00:00''),
             (''results'', JArr
                [success_result ''Pretoria'' ''2024-03-05T10:00:00'' (JFloat ''23.456''),
                 success_result ''Cape Town'' ''2024-03-05T10:00:00'' (JFloat ''23.456''),
                 success_result ''Johannesburg'' ''2024-03-05T10:00:00'' (JFloat ''23.456''),
                 success_result ''Durban'' ''2024-03-05T10:00:00'' (JFloat ''23.456'')])]\<rparr>,
      st')"
    by blast
  from C4_summary [OF run] have "\<exists>n. reads st' = Suc n"
    by auto
  with run show ?thesis by simp
qed

section \<open>Isolation of per-city failures\<close>

text \<open>
  Claim C1. In a run that passes the configuration checks the handler answers 200 with
  four results, and the entry of each city is fixed by what happens in its own round,
  at the state the loop has reached there:
  \<^item> if the HTTP call raises (network error, a status other than 200, a body that is
    not JSON), the entry is \<^verbatim>\<open>{city, status: error, error: <message>}\<close>;
  \<^item> if the parsed payload has no readable temperature (it is not a dict, or its
    \<open>main\<close> is not one), the entry is the error entry with that exception's message;
  \<^item> otherwise the object is written and then the row is built and written; the first
    of these three steps that raises (the object-store write, the extraction of a
    field, the table write) gives the error entry with its message, and if none does
    the entry is the success entry with the timestamp and the echoed temperature.
  The clock has been read twice more after a round exactly when its payload had a
  readable temperature. A failure never stops the loop: the four URLs are requested, in
  order, in every such run. In particular, when the HTTP call of exactly one city
  fails and the other three cities are processed without failure (a payload of the
  expected shape, storage writes that succeed), the list holds three success entries
  and the one error entry of that city, and the rate is \<^verbatim>\<open>75.0%\<close>.
\<close>

theorem C1_city_isolation:
  assumes pc: "passes_config w k b"
    and run: "lambda_handler event context w st = (out, st')"
  shows "\<exists>r results.
       out = Inr r \<and> statusCode r = 200
     \<and> getitem (body r) ''results'' = Inr (JArr results)
     \<and> length results = 4
     \<and> (\<forall>i<4. \<forall>e. urlopen_json w (api_url (cities ! i) k) = Inl e \<longrightarrow>
            results ! i = error_entry (city_display ! i) (str_exn e))
     \<and> (\<forall>i<4. \<forall>data e.
            urlopen_json w (api_url (cities ! i) k) = Inr data \<and> current_temp data = Inl e \<longrightarrow>
            results ! i = error_entry (city_display ! i) (str_exn e))
     \<and> (\<forall>i<4. \<forall>kv temp.
            urlopen_json w (api_url (cities ! i) k) = Inr (JObj kv)
          \<and> current_temp (JObj kv) = Inr temp \<longrightarrow>
            results ! i =
              (case put_object w (put_request w b (city_display ! i) kv
                                    (reads (round_state w k b st i))) of
                 Some e \<Rightarrow> error_entry (city_display ! i) (str_exn e)
               | None \<Rightarrow>
                   (case build_item w (city_display ! i)
                           (isoformat (now w (reads (round_state w k b st i))))
                           (Body (put_request w b (city_display ! i) kv
                                    (reads (round_state w k b st i)))) of
                      Inl e \<Rightarrow> error_entry (city_display ! i) (str_exn e)
                    | Inr row \<Rightarrow>
                        (case put_item w row of
                           Some e \<Rightarrow> error_entry (city_display ! i) (str_exn e)
                         | None \<Rightarrow>
                             JObj [(''city'', JStr (city_display ! i)),
                                   (''status'', JStr ''success''),
                                   (''timestamp'',
                                    JStr (isoformat (now w (reads (round_state w k b st i))))),
                                   (''temperature'', temp)]))))
     \<and> (\<forall>i<4. reads (round_state w k b st (Suc i)) =
            reads (round_state w k b st i)
            + (if \<exists>data temp. urlopen_json w (api_url (cities ! i) k) = Inr data
                     \<and> current_temp data = Inr temp then 2 else 0))
     \<and> http_urls (calls st') = http_urls (calls st) @ map (\<lambda>q. api_url q k) cities
     \<and> (\<forall>j<4. \<forall>e.
            urlopen_json w (api_url (cities ! j) k) = Inl e
          \<and> (\<forall>i<4. i \<noteq> j \<longrightarrow>
                (\<exists>kv. urlopen_json w (api_url (cities ! i) k) = Inr (JObj kv) \<and> well_formed kv))
          \<and> (\<forall>req. put_object w req = None) \<and> (\<forall>row. put_item w row = None)
          \<longrightarrow> length (filter is_success results) = 3
            \<and> filter (\<lambda>x. \<not> is_success x) results
                = [error_entry (city_display ! j) (str_exn e)]
            \<and> getitem (body r) ''success_rate'' = Inr (JStr ''75.0%''))"
proof -
  define s1 where "s1 = city_step w k b 0 ''Pretoria'' st"
  define s2 where "s2 = city_step w k b 1 ''Cape%20Town'' (snd s1)"
  define s3 where "s3 = city_step w k b 2 ''Johannesburg'' (snd s2)"
  define s4 where "s4 = city_step w k b 3 ''Durban'' (snd s3)"
  define results where "results = [fst s1, fst s2, fst s3, fst s4]"
  define r where "r = \<lparr>statusCode = 200,
      body = summary results
               (format_1f (of_nat (length (filter is_success results)) / 4 * 100))
               (isoformat (now w (reads (snd s4))))\<rparr>"
  note rs = round_states [of w k b st, folded s1_def s2_def s3_def s4_def]
  from run have out: "out = Inr r" and st': "st' = tick (snd s4)"
    unfolding lambda_handler_summary [OF pc] Let_def
    by (simp_all add: s1_def s2_def s3_def s4_def results_def r_def)
  have sc: "statusCode r = 200"
    by (simp add: r_def)
  have res: "getitem (body r) ''results'' = Inr (JArr results)"
    and rate: "getitem (body r) ''success_rate''
      = Inr (JStr (format_1f (of_nat (length (filter is_success results)) / 4 * 100) @ ''%''))"
    by (simp_all add: r_def summary_def)
  have len: "length results = 4"
    by (simp add: results_def)
  have nth: "results ! 0 = fst s1" "results ! 1 = fst s2" "results ! 2 = fst s3"
    "results ! 3 = fst s4"
    by (simp_all add: results_def)
  have entry: "\<forall>i<4. results ! i = fst (city_step w k b i (cities ! i) (round_state w k b st i))"
    unfolding all_less_4 nth query_names rs
    by (simp add: s1_def s2_def s3_def s4_def)
  have next_state: "\<forall>i<4. round_state w k b st (Suc i)
      = snd (city_step w k b i (cities ! i) (round_state w k b st i))"
    by (simp add: city_step_process_city)
  have failed: "\<forall>i<4. \<forall>e. urlopen_json w (api_url (cities ! i) k) = Inl e \<longrightarrow>
            results ! i = error_entry (city_display ! i) (str_exn e)"
    using entry round_outcome [where w = w and k = k] by simp
  have parse: "\<forall>i<4. \<forall>data e.
            urlopen_json w (api_url (cities ! i) k) = Inr data \<and> current_temp data = Inl e \<longrightarrow>
            results ! i = error_entry (city_display ! i) (str_exn e)"
  proof (intro allI impI)
    fix i data e
    assume i: "i < (4::nat)"
      and h: "urlopen_json w (api_url (cities ! i) k) = Inr data \<and> current_temp data = Inl e"
    from entry i have "results ! i = fst (city_step w k b i (cities ! i) (round_state w k b st i))"
      by simp
    with round_outcome [where w = w and k = k and b = b and i = i and q = "cities ! i"
        and st = "round_state w k b st i", THEN conjunct2, THEN conjunct1, rule_format, OF h]
    show "results ! i = error_entry (city_display ! i) (str_exn e)"
      by simp
  qed
  have payload: "\<forall>i<4. \<forall>kv temp.
            urlopen_json w (api_url (cities ! i) k) = Inr (JObj kv)
          \<and> current_temp (JObj kv) = Inr temp \<longrightarrow>
            results ! i =
              (case put_object w (put_request w b (city_display ! i) kv
                                    (reads (round_state w k b st i))) of
                 Some e \<Rightarrow> error_entry (city_display ! i) (str_exn e)
               | None \<Rightarrow>
                   (case build_item w (city_display ! i)
                           (isoformat (now w (reads (round_state w k b st i))))
                           (Body (put_request w b (city_display ! i) kv
                                    (reads (round_state w k b st i)))) of
                      Inl e \<Rightarrow> error_entry (city_display ! i) (str_exn e)
                    | Inr row \<Rightarrow>
                        (case put_item w row of
                           Some e \<Rightarrow> error_entry (city_display ! i) (str_exn e)
                         | None \<Rightarrow>
                             JObj [(''city'', JStr (city_display ! i)),
                                   (''status'', JStr ''success''),
                                   (''timestamp'',
                                    JStr (isoformat (now w (reads (round_state w k b st i))))),
                                   (''temperature'', temp)])))"
  proof (intro allI impI)
    fix i kv temp
    assume i: "i < (4::nat)"
      and h: "urlopen_json w (api_url (cities ! i) k) = Inr (JObj kv)
          \<and> current_temp (JObj kv) = Inr temp"
    from entry i have "results ! i = fst (city_step w k b i (cities ! i) (round_state w k b st i))"
      by simp
    with round_outcome [where w = w and k = k and b = b and i = i and q = "cities ! i"
        and st = "round_state w k b st i", THEN conjunct2, THEN conjunct2, THEN conjunct1,
        rule_format, OF h]
    show "results ! i =
              (case put_object w (put_request w b (city_display ! i) kv
                                    (reads (round_state w k b st i))) of
                 Some e \<Rightarrow> error_entry (city_display ! i) (str_exn e)
               | None \<Rightarrow>
                   (case build_item w (city_display ! i)
                           (isoformat (now w (reads (round_state w k b st i))))
                           (Body (put_request w b (city_display ! i) kv
                                    (reads (round_state w k b st i)))) of
                      Inl e \<Rightarrow> error_entry (city_display ! i) (str_exn e)
                    | Inr row \<Rightarrow>
                        (case put_item w row of
                           Some e \<Rightarrow> error_entry (city_display ! i) (str_exn e)
                         | None \<Rightarrow>
                             JObj [(''city'', JStr (city_display ! i)),
                                   (''status'', JStr ''success''),
                                   (''timestamp'',
                                    JStr (isoformat (now w (reads (round_state w k b st i))))),
                                   (''temperature'', temp)])))"
      by simp
  qed
  have clock: "\<forall>i<4. reads (round_state w k b st (Suc i)) =
            reads (round_state w k b st i)
            + (if \<exists>data temp. urlopen_json w (api_url (cities ! i) k) = Inr data
                     \<and> current_temp data = Inr temp then 2 else 0)"
  proof (intro allI impI)
    fix i :: nat assume "i < 4"
    with next_state have "round_state w k b st (Suc i)
      = snd (city_step w k b i (cities ! i) (round_state w k b st i))"
      by blast
    with round_outcome [where w = w and k = k and b = b and i = i and q = "cities ! i"
        and st = "round_state w k b st i", THEN conjunct2, THEN conjunct2, THEN conjunct2]
    show "reads (round_state w k b st (Suc i)) =
            reads (round_state w k b st i)
            + (if \<exists>data temp. urlopen_json w (api_url (cities ! i) k) = Inr data
                     \<and> current_temp data = Inr temp then 2 else 0)"
      by simp
  qed
  have urls: "http_urls (calls st') = http_urls (calls st) @ map (\<lambda>q. api_url q k) cities"
    by (simp add: st' tick_def s4_def s3_def s2_def s1_def city_step_urls cities_def)
  have ok: "\<forall>i<4. (\<exists>kv. urlopen_json w (api_url (cities ! i) k) = Inr (JObj kv) \<and> well_formed kv)
       \<and> (\<forall>req. put_object w req = None) \<and> (\<forall>row. put_item w row = None)
       \<longrightarrow> is_success (results ! i)"
    unfolding all_less_4 nth query_names
    by (auto simp: s1_def s2_def s3_def s4_def intro: city_step_success)
  have one: "\<forall>j<4. \<forall>e.
            urlopen_json w (api_url (cities ! j) k) = Inl e
          \<and> (\<forall>i<4. i \<noteq> j \<longrightarrow>
                (\<exists>kv. urlopen_json w (api_url (cities ! i) k) = Inr (JObj kv) \<and> well_formed kv))
          \<and> (\<forall>req. put_object w req = None) \<and> (\<forall>row. put_item w row = None)
          \<longrightarrow> length (filter is_success results) = 3
            \<and> filter (\<lambda>x. \<not> is_success x) results
                = [error_entry (city_display ! j) (str_exn e)]
            \<and> getitem (body r) ''success_rate'' = Inr (JStr ''75.0%'')"
  proof (intro allI impI)
    fix j e
    assume j: "j < (4::nat)"
    assume h: "urlopen_json w (api_url (cities ! j) k) = Inl e
          \<and> (\<forall>i<4. i \<noteq> j \<longrightarrow>
                (\<exists>kv. urlopen_json w (api_url (cities ! i) k) = Inr (JObj kv) \<and> well_formed kv))
          \<and> (\<forall>req. put_object w req = None) \<and> (\<forall>row. put_item w row = None)"
    with failed j have bad: "results ! j = error_entry (city_display ! j) (str_exn e)"
      by simp
    have nos: "\<not> is_success (error_entry (city_display ! j) (str_exn e))"
      by (simp add: is_success_def error_entry_def)
    from h ok have good: "\<forall>i<4. i \<noteq> j \<longrightarrow> is_success (results ! i)"
      by simp
    from j consider "j = 0" | "j = 1" | "j = 2" | "j = 3" by linarith
    then have "length (filter is_success results) = 3
        \<and> filter (\<lambda>x. \<not> is_success x) results = [error_entry (city_display ! j) (str_exn e)]"
      using bad good nos unfolding all_less_4 nth
      by cases (simp_all add: results_def)
    then show "length (filter is_success results) = 3
            \<and> filter (\<lambda>x. \<not> is_success x) results
                = [error_entry (city_display ! j) (str_exn e)]
            \<and> getitem (body r) ''success_rate'' = Inr (JStr ''75.0%'')"
      by (simp add: rate format_1f_quarters)
  qed
  from out sc res len failed parse payload clock urls one show ?thesis
    by (intro exI [of _ r] exI [of _ results] conjI)
qed

theorem C1_city_isolation_witness:
  "passes_config outage_world ''key'' ''bucket''
   \<and> urlopen_json outage_world (api_url (cities ! 1) ''key'') = Inl timed_out
   \<and> (\<exists>r results st'.
         lambda_handler () () outage_world start = (Inr r, st')
       \<and> statusCode r = 200
       \<and> getitem (body r) ''results'' = Inr (JArr results)
       \<and> length (filter is_success results) = 3
       \<and> filter (\<lambda>x. \<not> is_success x) results
           = [JObj [(''city'', JStr ''Cape Town''), (''status'', JStr ''error''),
                    (''error'', JStr ''<urlopen error timed out>'')]]
       \<and> getitem (body r) ''success_rate'' = Inr (JStr ''75.0%''))"
proof -
  have pc: "passes_config outage_world ''key'' ''bucket''"
    by (simp add: passes_config_def outage_world_def sample_world_def)
  have down: "urlopen_json outage_world (api_url (cities ! 1) ''key'') = Inl timed_out"
    by (simp add: outage_world_def query_names)
  have up: "\<forall>i<4. i \<noteq> 1 \<longrightarrow>
      (\<exists>kv. urlopen_json outage_world (api_url (cities ! i) ''key'') = Inr (JObj kv)
            \<and> well_formed kv)"
    unfolding all_less_4
    by (simp add: outage_world_def query_names api_url_def sample_well_formed)
  have puts: "(\<forall>req. put_object outage_world req = None)
      \<and> (\<forall>row. put_item outage_world row = None)"
    by (simp add: outage_world_def sample_world_def)
  obtain out st' where run: "lambda_handler () () outage_world start = (out, st')"
    by (cases "lambda_handler () () outage_world start")
  from C1_city_isolation [OF pc run] obtain r results where
    "out = Inr r" "statusCode r = 200" "getitem (body r) ''results'' = Inr (JArr results)"
    and one: "\<forall>j<4. \<forall>e.
            urlopen_json outage_world (api_url (cities ! j) ''key'') = Inl e
          \<and> (\<forall>i<4. i \<noteq> j \<longrightarrow>
                (\<exists>kv. urlopen_json outage_world (api_url (cities ! i) ''key'') = Inr (JObj kv)
                      \<and> well_formed kv))
          \<and> (\<forall>req. put_object outage_world req = None)
          \<and> (\<forall>row. put_item outage_world row = None)
          \<longrightarrow> length (filter is_success results) = 3
            \<and> filter (\<lambda>x. \<not> is_success x) results
                = [error_entry (city_display ! j) (str_exn e)]
            \<and> getitem (body r) ''success_rate'' = Inr (JStr ''75.0%'')"
    by (elim exE conjE)
  from one [rule_format, of 1 timed_out] down up puts
  have "length (filter is_success results) = 3
      \<and> filter (\<lambda>x. \<not> is_success x) results
          = [JObj [(''city'', JStr ''Cape Town''), (''status'', JStr ''error''),
                   (''error'', JStr ''<urlopen error timed out>'')]]
      \<and> getitem (body r) ''success_rate'' = Inr (JStr ''75.0%'')"
    by (simp add: display_names timed_out_def error_entry_def)
  with pc down run \<open>out = Inr r\<close> \<open>statusCode r = 200\<close>
    \<open>getitem (body r) ''results'' = Inr (JArr results)\<close>
  show ?thesis by blast
qed

section \<open>Writes and the result of a city\<close>

text \<open>
  Claim C9. In a round of the loop, the entry appended has status success only when
  the round made the object-store write and then the table write and neither raised;
  the entry then carries the timestamp of the row and the echoed temperature. If the
  object-store write raises, or the table write raises, the entry is the error entry
  with that exception's text. When it is the table write that raises, the object-store
  write made before it succeeded and the round makes no call after the failed write:
  nothing undoes the stored object.
\<close>

theorem C9_success_after_writes:
  assumes i: "i < length city_display"
    and run: "for_cities w k b [(i, q)] results dn st = (out, st')"
  shows "\<exists>r new.
       out = Inr (results @ [r]) \<and> calls st' = calls st @ new
     \<and> (is_success r \<longrightarrow>
          (\<exists>req row temp.
              new = [HttpGet (api_url q k), PutObject req, PutItem row]
            \<and> put_object w req = None \<and> put_item w row = None
            \<and> r = JObj [(''city'', JStr (city_display ! i)), (''status'', JStr ''success''),
                        (''timestamp'', JStr (timestamp row)), (''temperature'', temp)]))
     \<and> (\<forall>req e. PutObject req \<in> set new \<and> put_object w req = Some e \<longrightarrow>
          r = JObj [(''city'', JStr (city_display ! i)), (''status'', JStr ''error''),
                    (''error'', JStr (str_exn e))])
     \<and> (\<forall>row e. PutItem row \<in> set new \<and> put_item w row = Some e \<longrightarrow>
          r = JObj [(''city'', JStr (city_display ! i)), (''status'', JStr ''error''),
                    (''error'', JStr (str_exn e))]
          \<and> (\<exists>req. new = [HttpGet (api_url q k), PutObject req, PutItem row]
                   \<and> put_object w req = None))"
proof -
  obtain res st1 where pc: "process_city w k b (city_display ! i) q st = (res, st1)"
    by (cases "process_city w k b (city_display ! i) q st")
  define r where "r = (case res of Inr x \<Rightarrow> x | Inl e \<Rightarrow> error_result (city_display ! i) e)"
  from run have "(Inr (results @ [fst (city_step w k b i q st)]), snd (city_step w k b i q st))
      = (out, st')"
    unfolding for_cities_single [OF i] .
  with pc have out: "out = Inr (results @ [r])" and st': "st' = st1"
    by (auto simp: city_step_def r_def split: sum.splits)
  from pc show ?thesis
  proof (cases rule: process_city_cases)
    case (no_write e)
    with out st' show ?thesis
      by (intro exI [of _ r] exI [of _ "[HttpGet (api_url q k)]"]) (simp add: r_def)
  next
    case (object_failed e req)
    with out st' show ?thesis
      by (intro exI [of _ r] exI [of _ "[HttpGet (api_url q k), PutObject req]"])
        (auto simp: r_def error_result_def is_success_def)
  next
    case (row_failed e req)
    with out st' show ?thesis
      by (intro exI [of _ r] exI [of _ "[HttpGet (api_url q k), PutObject req]"])
        (auto simp: r_def error_result_def is_success_def)
  next
    case (item_failed e req row)
    with out st' show ?thesis
      by (intro exI [of _ r] exI [of _ "[HttpGet (api_url q k), PutObject req, PutItem row]"])
        (auto simp: r_def error_result_def is_success_def)
  next
    case (success req row temp)
    from success(6) have "timestamp row = isoformat (now w (reads st))"
      by (simp add: build_item_stamp)
    with success out st' show ?thesis
      by (intro exI [of _ r] exI [of _ "[HttpGet (api_url q k), PutObject req, PutItem row]"])
        (auto simp: r_def success_result_def is_success_def)
  qed
qed

theorem C9_success_after_writes_witness:
  "1 < length city_display
   \<and> (\<exists>st' req row.
         for_cities throttled_world ''key'' ''bucket'' [(1, ''Cape%20Town'')] [] None start
           = (Inr [JObj [(''city'', JStr ''Cape Town''), (''status'', JStr ''error''),
                         (''error'', JStr ''ProvisionedThroughputExceededException'')]], st')
       \<and> calls st' = [HttpGet (api_url ''Cape%20Town'' ''key''), PutObject req, PutItem row]
       \<and> put_object throttled_world req = None
       \<and> put_item throttled_world row = Some throttled)"
proof -
  have i: "1 < length city_display"
    by (simp add: city_display_def)
  obtain out st' where
    run: "for_cities throttled_world ''key'' ''bucket'' [(1, ''Cape%20Town'')] [] None start
            = (out, st')"
    by (cases "for_cities throttled_world ''key'' ''bucket'' [(1, ''Cape%20Town'')] [] None start")
  have pc: "process_city throttled_world ''key'' ''bucket'' ''Cape Town'' ''Cape%20Town'' start =
     (Inl throttled,
      start\<lparr>calls := calls start @ [HttpGet (api_url ''Cape%20Town'' ''key''),
                 PutObject (sample_request ''Cape Town''), PutItem (sample_row ''Cape Town'')],
            reads := Suc (Suc (reads start))\<rparr>)"
    by (subst sample_process) (simp_all add: throttled_world_def sample_world_def)
  from run have "(Inr ([] @ [fst (city_step throttled_world ''key'' ''bucket'' 1 ''Cape%20Town'' start)]),
       snd (city_step throttled_world ''key'' ''bucket'' 1 ''Cape%20Town'' start)) = (out, st')"
    unfolding for_cities_single [OF i] .
  then have "st' = snd (city_step throttled_world ''key'' ''bucket'' 1 ''Cape%20Town'' start)"
    by simp
  with pc have calls: "calls st' = [HttpGet (api_url ''Cape%20Town'' ''key''),
      PutObject (sample_request ''Cape Town''), PutItem (sample_row ''Cape Town'')]"
    by (simp add: city_step_def display_names start_def)
  from C9_success_after_writes [OF i run] obtain r new where
    out: "out = Inr ([] @ [r])" and new: "calls st' = calls start @ new"
    and item: "\<forall>row e. PutItem row \<in> set new \<and> put_item throttled_world row = Some e \<longrightarrow>
          r = JObj [(''city'', JStr (city_display ! 1)), (''status'', JStr ''error''),
                    (''error'', JStr (str_exn e))]
          \<and> (\<exists>req. new = [HttpGet (api_url ''Cape%20Town'' ''key''), PutObject req, PutItem row]
                   \<and> put_object throttled_world req = None)"
    by blast
  from new calls have "new = [HttpGet (api_url ''Cape%20Town'' ''key''),
      PutObject (sample_request ''Cape Town''), PutItem (sample_row ''Cape Town'')]"
    by (simp add: start_def)
  then have "PutItem (sample_row ''Cape Town'') \<in> set new"
    by simp
  moreover have "put_item throttled_world (sample_row ''Cape Town'') = Some throttled"
    by (simp add: throttled_world_def)
  ultimately have "r = JObj [(''city'', JStr (city_display ! 1)), (''status'', JStr ''error''),
                    (''error'', JStr (str_exn throttled))]
          \<and> (\<exists>req. new = [HttpGet (api_url ''Cape%20Town'' ''key''), PutObject req,
                          PutItem (sample_row ''Cape Town'')]
                   \<and> put_object throttled_world req = None)"
    using item by blast
  with i run out new \<open>put_item throttled_world (sample_row ''Cape Town'') = Some throttled\<close>
  show ?thesis
    by (auto simp: display_names throttled_def start_def)
qed

section \<open>What is written\<close>

text \<open>
  Claim C6. The key is built from two readings of the clock: the timestamp segment is
  the reading of line 65, the date directories are a second reading, taken on line 71.
  In the run below the first reading is 2024-03-05T23:59:59.999999 and the second falls
  after midnight: the object of Cape Town is stored under the directory of 6 March with
  the timestamp of 5 March in its name, where the claim puts it under
  \<^verbatim>\<open>raw-data/Cape_Town/2024/03/05/\<close>.
\<close>

theorem C6_midnight_key:
  "isoformat (now midnight_world (reads start)) = ''2024-03-05T23:59:59.999999''
   \<and> object_keys (calls (snd (process_city midnight_world ''key'' ''bucket'' ''Cape Town''
                                 ''Cape%20Town'' start)))
     = [''raw-data/Cape_Town/2024/03/06/2024-03-05T23:59:59.999999.json'']"
proof -
  have fetch: "urlopen_json midnight_world (api_url ''Cape%20Town'' ''key'')
      = Inr (JObj sample_fields)"
    by (simp add: midnight_world_def sample_world_def)
  have temp: "current_temp (JObj sample_fields) = Inr (JFloat ''23.456'')"
    by (simp add: current_temp_def sample_temp del: py_get.simps)
  have ts: "isoformat (now midnight_world (reads start)) = ''2024-03-05T23:59:59.999999''"
    by (simp add: midnight_world_def start_def isoformat_def pad_def str_nat.simps)
  have key: "Key (put_request midnight_world ''bucket'' ''Cape Town'' sample_fields (reads start))
      = ''raw-data/Cape_Town/2024/03/06/2024-03-05T23:59:59.999999.json''"
    unfolding put_request_def using ts
    by (simp add: s3_key_def safe_city_def strftime_Ymd_def midnight_world_def start_def
          pad_def str_nat.simps)
  have "object_keys (calls (snd (process_city midnight_world ''key'' ''bucket'' ''Cape Town''
                                 ''Cape%20Town'' start)))
     = [Key (put_request midnight_world ''bucket'' ''Cape Town'' sample_fields (reads start))]"
    unfolding process_city_payload [OF fetch temp]
    by (simp add: start_def split: option.splits sum.splits)
  with ts key show ?thesis by simp
qed

text \<open>
  Claim C5, as stated: the decimal stored for a numeric field equals, as a decimal
  string, the value present in the source JSON. A payload whose text has
  \<^verbatim>\<open>"temp": 1e2\<close> is parsed to the float whose text is \<^verbatim>\<open>100.0\<close>; the city is processed
  successfully and the row written has the temperature \<^verbatim>\<open>Decimal('100.0')\<close>, which is not
  the text \<^verbatim>\<open>1e2\<close> of the source.
\<close>

theorem C5_counterexample:
  "exponent_literal 1 2 = ''1e2''
   \<and> loads_exponent_literal 1 2 = Some (JFloat ''100.0'')
   \<and> urlopen_json exponent_world (api_url ''Pretoria'' ''key'')
       = Inr (JObj (AList.update ''main''
           (JObj [(''temp'', the (loads_exponent_literal 1 2)), (''humidity'', JInt 65),
                  (''pressure'', JInt 1013)]) sample_fields))
   \<and> fst (process_city exponent_world ''key'' ''bucket'' ''Pretoria'' ''Pretoria'' start)
       = Inr (success_result ''Pretoria'' ''2024-03-05T10:00:00'' (JFloat ''100.0''))
   \<and> map temperature
        (table_rows (calls (snd (process_city exponent_world ''key'' ''bucket'' ''Pretoria''
                                   ''Pretoria'' start))))
       = [Decimal ''100.0'']
   \<and> Decimal ''100.0'' \<noteq> Decimal (exponent_literal 1 2)"
proof -
  have lit: "exponent_literal 1 2 = ''1e2''"
    by (simp add: exponent_literal_def str_nat.simps)
  have loads: "loads_exponent_literal 1 2 = Some (JFloat ''100.0'')"
    by (simp add: loads_exponent_literal_def str_nat.simps)
  have fetch: "urlopen_json exponent_world (api_url ''Pretoria'' ''key'')
      = Inr (JObj exponent_fields)"
    by (simp add: exponent_world_def sample_world_def)
  have temp: "current_temp (JObj exponent_fields) = Inr (JFloat ''100.0'')"
    by (simp add: current_temp_def exponent_fields_def sample_fields_def)
  have item: "build_item exponent_world ''Pretoria'' ''2024-03-05T10:00:00''
      (Body (put_request exponent_world ''bucket'' ''Pretoria'' exponent_fields (reads start)))
    = Inr ((sample_row ''Pretoria'')\<lparr>temperature := Decimal ''100.0''\<rparr>)"
    by (simp add: build_item_def put_request_def exponent_fields_def sample_fields_def
          sample_row_def str_int_def str_nat.simps)
  have now: "isoformat (now exponent_world (reads start)) = ''2024-03-05T10:00:00''"
    by (simp add: exponent_world_def sample_world_def sample_iso)
  have writes: "put_object exponent_world req = None" "put_item exponent_world row = None"
    for req row
    by (simp_all add: exponent_world_def sample_world_def)
  note run = process_city_payload [OF fetch temp, of "''bucket''" "''Pretoria''" start,
      unfolded now item writes, simplified]
  from lit loads show ?thesis
    unfolding run by (simp add: fetch exponent_fields_def start_def)
qed

text \<open>
  Claim C5, amended. For every city successfully processed, a row is written to the
  table, and each of its numeric columns (temperature, humidity, pressure, wind_speed,
  visibility, cloudiness, sunrise, sunset) is \<^verbatim>\<open>Decimal(str(v))\<close> of the value \<open>v\<close> that the
  parsed payload holds for it, with \<open>0\<close> for a payload without \<open>visibility\<close>: the decimal
  is constructed from the text of the parsed value, which for an int is its decimal
  text and for a float its \<^verbatim>\<open>repr\<close>, never from the binary float. A payload parsed to the
  float \<^verbatim>\<open>23.456\<close> is stored as the decimal \<^verbatim>\<open>23.456\<close>.
\<close>

theorem C5_decimal_of_str:
  assumes run: "process_city w k b d q st = (Inr entry, st')"
  shows "\<exists>kv row.
       urlopen_json w (api_url q k) = Inr (JObj kv)
     \<and> calls st' = calls st @ [HttpGet (api_url q k),
                               PutObject (put_request w b d kv (reads st)), PutItem row]
     \<and> bind_exn (payload_value kv ''main'' ''temp'') (to_decimal w) = Inr (temperature row)
     \<and> bind_exn (payload_value kv ''main'' ''humidity'') (to_decimal w) = Inr (humidity row)
     \<and> bind_exn (payload_value kv ''main'' ''pressure'') (to_decimal w) = Inr (pressure row)
     \<and> bind_exn (payload_value kv ''wind'' ''speed'') (to_decimal w) = Inr (wind_speed row)
     \<and> bind_exn (py_get (JObj kv) ''visibility'' (JInt 0)) (to_decimal w) = Inr (visibility row)
     \<and> bind_exn (payload_value kv ''clouds'' ''all'') (to_decimal w) = Inr (cloudiness row)
     \<and> bind_exn (payload_value kv ''sys'' ''sunrise'') (to_decimal w) = Inr (sunrise row)
     \<and> bind_exn (payload_value kv ''sys'' ''sunset'') (to_decimal w) = Inr (sunset row)
     \<and> to_decimal w (JInt i) = Inr (Decimal (str_int i))
     \<and> to_decimal w (JFloat r) = Inr (Decimal r)
     \<and> to_decimal w (JFloat ''23.456'') = Inr (Decimal ''23.456'')"
proof -
  from run have not_fetch: "\<And>e. urlopen_json w (api_url q k) \<noteq> Inl e"
    by (auto simp: process_city_def Let_def)
  then obtain data where data: "urlopen_json w (api_url q k) = Inr data"
    by (cases "urlopen_json w (api_url q k)") auto
  from run data have "\<And>e. current_temp data \<noteq> Inl e"
    by (auto simp: process_city_def Let_def current_temp_def)
  then obtain temp where temp: "current_temp data = Inr temp"
    by (cases "current_temp data") auto
  from current_temp_dict [OF temp] obtain kv where kv: "data = JObj kv" ..
  note step = process_city_payload [OF data [unfolded kv] temp [unfolded kv], of b d st]
  let ?req = "put_request w b d kv (reads st)"
  from run step have po: "put_object w ?req = None"
    by (cases "put_object w ?req") auto
  from run step po obtain row
    where row: "build_item w d (isoformat (now w (reads st))) (Body ?req) = Inr row"
    by (cases "build_item w d (isoformat (now w (reads st))) (Body ?req)") auto
  from run step po row have calls: "calls st' = calls st @ [HttpGet (api_url q k),
      PutObject ?req, PutItem row]"
    by auto
  have "bind_exn (payload_value kv ''main'' ''temp'') (to_decimal w) = Inr (temperature row)"
    "bind_exn (payload_value kv ''main'' ''humidity'') (to_decimal w) = Inr (humidity row)"
    "bind_exn (payload_value kv ''main'' ''pressure'') (to_decimal w) = Inr (pressure row)"
    "bind_exn (payload_value kv ''wind'' ''speed'') (to_decimal w) = Inr (wind_speed row)"
    "bind_exn (py_get (JObj kv) ''visibility'' (JInt 0)) (to_decimal w) = Inr (visibility row)"
    "bind_exn (payload_value kv ''clouds'' ''all'') (to_decimal w) = Inr (cloudiness row)"
    "bind_exn (payload_value kv ''sys'' ''sunrise'') (to_decimal w) = Inr (sunrise row)"
    "bind_exn (payload_value kv ''sys'' ''sunset'') (to_decimal w) = Inr (sunset row)"
    using build_item_columns [OF row]
    by (simp_all add: put_request_def payload_value_def getitem_stamped py_get_stamped
          del: getitem.simps py_get.simps)
  with data kv calls show ?thesis
    by (intro exI [of _ kv] exI [of _ row]) simp
qed

theorem C5_decimal_of_str_witness:
  "\<exists>row. calls (snd (process_city sample_world ''key'' ''bucket'' ''Pretoria'' ''Pretoria'' start))
          = [HttpGet (api_url ''Pretoria'' ''key''), PutObject (sample_request ''Pretoria''),
             PutItem row]
       \<and> temperature row = Decimal ''23.456'' \<and> humidity row = Decimal ''65''
       \<and> pressure row = Decimal ''1013'' \<and> wind_speed row = Decimal ''3.6''
       \<and> visibility row = Decimal ''0'' \<and> cloudiness row = Decimal ''0''
       \<and> sunrise row = Decimal ''1709611200'' \<and> sunset row = Decimal ''1709656800''"
proof -
  let ?w = sample_world
  obtain st' where st': "st' = snd (process_city ?w ''key'' ''bucket'' ''Pretoria'' ''Pretoria'' start)"
    by simp
  have "urlopen_json ?w (api_url ''Pretoria'' ''key'') = Inr (JObj sample_fields)"
    and "\<And>n. now ?w n = sample_instant"
    and "put_object ?w (sample_request ''Pretoria'') = None"
    and stored: "put_item ?w (sample_row ''Pretoria'') = None"
    by (simp_all add: sample_world_def)
  from sample_process [OF this(1-3), of start] stored
  have run: "process_city ?w ''key'' ''bucket'' ''Pretoria'' ''Pretoria'' start
      = (Inr (success_result ''Pretoria'' ''2024-03-05T10:00:00'' (JFloat ''23.456'')), st')"
    unfolding st' by simp
  from C5_decimal_of_str [OF run, where i = 0 and r = "[]"] obtain kv row
    where fetch: "urlopen_json ?w (api_url ''Pretoria'' ''key'') = Inr (JObj kv)"
      and calls: "calls st' = calls start @ [HttpGet (api_url ''Pretoria'' ''key''),
            PutObject (put_request ?w ''bucket'' ''Pretoria'' kv (reads start)), PutItem row]"
      and cols:
        "bind_exn (payload_value kv ''main'' ''temp'') (to_decimal ?w) = Inr (temperature row)"
        "bind_exn (payload_value kv ''main'' ''humidity'') (to_decimal ?w) = Inr (humidity row)"
        "bind_exn (payload_value kv ''main'' ''pressure'') (to_decimal ?w) = Inr (pressure row)"
        "bind_exn (payload_value kv ''wind'' ''speed'') (to_decimal ?w) = Inr (wind_speed row)"
        "bind_exn (py_get (JObj kv) ''visibility'' (JInt 0)) (to_decimal ?w) = Inr (visibility row)"
        "bind_exn (payload_value kv ''clouds'' ''all'') (to_decimal ?w) = Inr (cloudiness row)"
        "bind_exn (payload_value kv ''sys'' ''sunrise'') (to_decimal ?w) = Inr (sunrise row)"
        "bind_exn (payload_value kv ''sys'' ''sunset'') (to_decimal ?w) = Inr (sunset row)"
    by (elim exE conjE)
  from fetch have kv: "kv = sample_fields"
    by (simp add: sample_world_def)
  have req: "put_request ?w ''bucket'' ''Pretoria'' sample_fields (reads start)
      = sample_request ''Pretoria''"
    by (simp add: put_request_def sample_request_def sample_world_def sample_iso)
  from cols [symmetric] have
    "temperature row = Decimal ''23.456''" "humidity row = Decimal ''65''"
    "pressure row = Decimal ''1013''" "wind_speed row = Decimal ''3.6''"
    "visibility row = Decimal ''0''" "cloudiness row = Decimal ''0''"
    "sunrise row = Decimal ''1709611200''" "sunset row = Decimal ''1709656800''"
    by (simp_all add: kv payload_value_def sample_fields_def str_int_def str_nat.simps)
  with calls [unfolded kv req] show ?thesis
    unfolding st' [symmetric]
    by (intro exI [of _ row]) (simp add: start_def)
qed

text \<open>
  Claim C7. For a payload that has no \<open>visibility\<close> entry and has the other expected
  fields, the row is built without error and its visibility is the decimal \<open>0\<close>; and
  when the two storage writes go through, the processing of the city ends in its
  success entry, the row written having visibility \<open>0\<close>.
\<close>

theorem C7_missing_visibility:
  assumes fetch: "urlopen_json w (api_url q k) = Inr (JObj kv)"
    and absent: "map_of kv ''visibility'' = None"
    and others: "expected_fields kv"
  shows "(\<exists>row. build_item w d ts
                  (JObj (AList.update ''city'' (JStr d)
                           (AList.update ''timestamp'' (JStr ts) kv))) = Inr row
               \<and> visibility row = Decimal ''0'')
       \<and> ((\<forall>req. put_object w req = None) \<and> (\<forall>row. put_item w row = None) \<longrightarrow>
            (\<exists>temp req row st'.
                process_city w k b d q st
                  = (Inr (JObj [(''city'', JStr d), (''status'', JStr ''success''),
                                (''timestamp'', JStr (isoformat (now w (reads st)))),
                                (''temperature'', temp)]), st')
              \<and> calls st' = calls st @ [HttpGet (api_url q k), PutObject req, PutItem row]
              \<and> visibility row = Decimal ''0''))"
proof -
  from absent others have wf: "well_formed kv"
    by (simp add: well_formed_def)
  from build_item_well_formed [OF wf, of w d ts "JStr d" "JStr ts"] absent
  have a: "\<exists>row. build_item w d ts
                  (JObj (AList.update ''city'' (JStr d)
                           (AList.update ''timestamp'' (JStr ts) kv))) = Inr row
               \<and> visibility row = Decimal ''0''"
    by simp
  have b: "(\<forall>req. put_object w req = None) \<and> (\<forall>row. put_item w row = None) \<longrightarrow>
            (\<exists>temp req row st'.
                process_city w k b d q st
                  = (Inr (JObj [(''city'', JStr d), (''status'', JStr ''success''),
                                (''timestamp'', JStr (isoformat (now w (reads st)))),
                                (''temperature'', temp)]), st')
              \<and> calls st' = calls st @ [HttpGet (api_url q k), PutObject req, PutItem row]
              \<and> visibility row = Decimal ''0'')"
  proof
    assume "(\<forall>req. put_object w req = None) \<and> (\<forall>row. put_item w row = None)"
    then have s3: "\<forall>req. put_object w req = None" and ddb: "\<forall>row. put_item w row = None"
      by simp_all
    from process_city_success [OF fetch wf s3 ddb, of b d st] absent
    show "\<exists>temp req row st'.
                process_city w k b d q st
                  = (Inr (JObj [(''city'', JStr d), (''status'', JStr ''success''),
                                (''timestamp'', JStr (isoformat (now w (reads st)))),
                                (''temperature'', temp)]), st')
              \<and> calls st' = calls st @ [HttpGet (api_url q k), PutObject req, PutItem row]
              \<and> visibility row = Decimal ''0''"
      unfolding success_result_def by blast
  qed
  from a b show ?thesis ..
qed

theorem C7_missing_visibility_witness:
  "urlopen_json sample_world (api_url ''Durban'' ''key'') = Inr (JObj sample_fields)
   \<and> map_of sample_fields ''visibility'' = None
   \<and> expected_fields sample_fields
   \<and> (\<forall>req. put_object sample_world req = None) \<and> (\<forall>row. put_item sample_world row = None)
   \<and> (\<exists>temp req row st'.
         process_city sample_world ''key'' ''bucket'' ''Durban'' ''Durban'' start
           = (Inr (JObj [(''city'', JStr ''Durban''), (''status'', JStr ''success''),
                         (''timestamp'', JStr ''2024-03-05T10:00:00''),
                         (''temperature'', temp)]), st')
       \<and> calls st' = calls start @ [HttpGet (api_url ''Durban'' ''key''), PutObject req,
                                    PutItem row]
       \<and> visibility row = Decimal ''0'')"
proof -
  have fetch: "urlopen_json sample_world (api_url ''Durban'' ''key'') = Inr (JObj sample_fields)"
    by (simp add: sample_world_def)
  have absent: "map_of sample_fields ''visibility'' = None"
    by (simp add: sample_fields_def)
  have others: "expected_fields sample_fields"
    by (simp add: expected_fields_def field_def sample_fields_def)
  have puts: "(\<forall>req. put_object sample_world req = None)
      \<and> (\<forall>row. put_item sample_world row = None)"
    by (simp add: sample_world_def)
  have clock: "isoformat (now sample_world (reads start)) = ''2024-03-05T10:00:00''"
    by (simp add: sample_world_def sample_iso)
  from C7_missing_visibility [OF fetch absent others, of "''Durban''" "''t''" "''bucket''" start]
    puts clock
  have "\<exists>temp req row st'.
         process_city sample_world ''key'' ''bucket'' ''Durban'' ''Durban'' start
           = (Inr (JObj [(''city'', JStr ''Durban''), (''status'', JStr ''success''),
                         (''timestamp'', JStr ''2024-03-05T10:00:00''),
                         (''temperature'', temp)]), st')
       \<and> calls st' = calls start @ [HttpGet (api_url ''Durban'' ''key''), PutObject req,
                                    PutItem row]
       \<and> visibility row = Decimal ''0''"
    by simp
  with fetch absent others puts show ?thesis
    by blast
qed

section \<open>Empty configuration values\<close>

text \<open>
  Claim C8, as stated: whenever a required variable is set to the empty string the
  handler answers 400. In the run below the credential is empty and the table resource
  cannot be constructed; the clients are constructed before the environment is read,
  so the answer is 500.
\<close>

theorem C8_counterexample:
  "environ (sample_world\<lparr>environ := [''WEATHER_API_KEY'' \<mapsto> [], ''S3_BUCKET_NAME'' \<mapsto> ''bucket''],
                         boto3_resource_dynamodb := Some no_region\<rparr>)
     ''WEATHER_API_KEY'' = Some []
   \<and> fst (lambda_handler () ()
        (sample_world\<lparr>environ := [''WEATHER_API_KEY'' \<mapsto> [], ''S3_BUCKET_NAME'' \<mapsto> ''bucket''],
                      boto3_resource_dynamodb := Some no_region\<rparr>) start)
     = Inr \<lparr>statusCode = 500,
            body = JObj [(''error'', JStr ''Fatal error in weather data collection''),
                         (''details'', JStr ''You must specify a region.''),
                         (''execution_time'', JStr ''2024-03-05T10:00:00'')]\<rparr>"
  by (simp add: lambda_handler_def lambda_handler_try_def sample_world_def no_region_def
        fatal_def start_def isoformat_def pad_def sample_instant_def str_nat.simps)

text \<open>
  Claim C8, amended. A required variable that is set to the empty string is treated as
  one that is not set: for either variable, the handler does the same, to the last
  call, in a world where the variable is empty and in the world where it is absent. In
  a run in which the three storage handles are constructed without error, an empty
  credential gives 400 with the message for \<^verbatim>\<open>WEATHER_API_KEY\<close>, whatever the bucket
  name is, since the credential is checked first; a set credential with an empty bucket
  name gives 400 with the message for \<^verbatim>\<open>S3_BUCKET_NAME\<close>.
\<close>

theorem C8_empty_is_absent:
  "lambda_handler event context (w\<lparr>environ := (environ w)(''WEATHER_API_KEY'' \<mapsto> [])\<rparr>) st
     = lambda_handler event context (w\<lparr>environ := (environ w)(''WEATHER_API_KEY'' := None)\<rparr>) st
   \<and> lambda_handler event context (w\<lparr>environ := (environ w)(''S3_BUCKET_NAME'' \<mapsto> [])\<rparr>) st
     = lambda_handler event context (w\<lparr>environ := (environ w)(''S3_BUCKET_NAME'' := None)\<rparr>) st
   \<and> (boto3_client_s3 w = None \<and> boto3_resource_dynamodb w = None \<and> dynamodb_Table w = None
        \<longrightarrow>
        (environ w ''WEATHER_API_KEY'' = Some [] \<longrightarrow>
           lambda_handler event context w st =
             (Inr \<lparr>statusCode = 400,
                   body = JObj [(''error'',
                     JStr ''Missing WEATHER_API_KEY environment variable'')]\<rparr>, st))
        \<and> ((\<exists>k. environ w ''WEATHER_API_KEY'' = Some k \<and> k \<noteq> [])
             \<and> environ w ''S3_BUCKET_NAME'' = Some [] \<longrightarrow>
           lambda_handler event context w st =
             (Inr \<lparr>statusCode = 400,
                   body = JObj [(''error'',
                     JStr ''Missing S3_BUCKET_NAME environment variable'')]\<rparr>, st)))"
proof (intro conjI)
  show "lambda_handler event context (w\<lparr>environ := (environ w)(''WEATHER_API_KEY'' \<mapsto> [])\<rparr>) st
     = lambda_handler event context (w\<lparr>environ := (environ w)(''WEATHER_API_KEY'' := None)\<rparr>) st"
    by (simp add: lambda_handler_def lambda_handler_try_def split: option.splits)
  show "lambda_handler event context (w\<lparr>environ := (environ w)(''S3_BUCKET_NAME'' \<mapsto> [])\<rparr>) st
     = lambda_handler event context (w\<lparr>environ := (environ w)(''S3_BUCKET_NAME'' := None)\<rparr>) st"
    by (simp add: lambda_handler_def lambda_handler_try_def split: option.splits)
  show "boto3_client_s3 w = None \<and> boto3_resource_dynamodb w = None \<and> dynamodb_Table w = None
        \<longrightarrow>
        (environ w ''WEATHER_API_KEY'' = Some [] \<longrightarrow>
           lambda_handler event context w st =
             (Inr \<lparr>statusCode = 400,
                   body = JObj [(''error'',
                     JStr ''Missing WEATHER_API_KEY environment variable'')]\<rparr>, st))
        \<and> ((\<exists>k. environ w ''WEATHER_API_KEY'' = Some k \<and> k \<noteq> [])
             \<and> environ w ''S3_BUCKET_NAME'' = Some [] \<longrightarrow>
           lambda_handler event context w st =
             (Inr \<lparr>statusCode = 400,
                   body = JObj [(''error'',
                     JStr ''Missing S3_BUCKET_NAME environment variable'')]\<rparr>, st))"
    by (auto simp: lambda_handler_def lambda_handler_try_def missing_env_def)
qed

theorem C8_empty_is_absent_witness:
  "environ (sample_world\<lparr>environ := [''WEATHER_API_KEY'' \<mapsto> [], ''S3_BUCKET_NAME'' \<mapsto> []]\<rparr>)
       ''WEATHER_API_KEY'' = Some []
   \<and> lambda_handler () ()
       (sample_world\<lparr>environ := [''WEATHER_API_KEY'' \<mapsto> [], ''S3_BUCKET_NAME'' \<mapsto> []]\<rparr>) start
     = (Inr \<lparr>statusCode = 400,
             body = JObj [(''error'',
               JStr ''Missing WEATHER_API_KEY environment variable'')]\<rparr>, start)
   \<and> environ (sample_world\<lparr>environ := [''WEATHER_API_KEY'' \<mapsto> ''key'', ''S3_BUCKET_NAME'' \<mapsto> []]\<rparr>)
       ''S3_BUCKET_NAME'' = Some []
   \<and> lambda_handler () ()
       (sample_world\<lparr>environ := [''WEATHER_API_KEY'' \<mapsto> ''key'', ''S3_BUCKET_NAME'' \<mapsto> []]\<rparr>) start
     = (Inr \<lparr>statusCode = 400,
             body = JObj [(''error'',
               JStr ''Missing S3_BUCKET_NAME environment variable'')]\<rparr>, start)"
proof -
  let ?w1 = "sample_world\<lparr>environ := [''WEATHER_API_KEY'' \<mapsto> [], ''S3_BUCKET_NAME'' \<mapsto> []]\<rparr>"
  let ?w2 = "sample_world\<lparr>environ := [''WEATHER_API_KEY'' \<mapsto> ''key'', ''S3_BUCKET_NAME'' \<mapsto> []]\<rparr>"
  have c1: "boto3_client_s3 ?w1 = None \<and> boto3_resource_dynamodb ?w1 = None
      \<and> dynamodb_Table ?w1 = None"
    and c2: "boto3_client_s3 ?w2 = None \<and> boto3_resource_dynamodb ?w2 = None
      \<and> dynamodb_Table ?w2 = None"
    by (simp_all add: sample_world_def)
  have e1: "environ ?w1 ''WEATHER_API_KEY'' = Some []"
    and e2: "(\<exists>k. environ ?w2 ''WEATHER_API_KEY'' = Some k \<and> k \<noteq> [])
      \<and> environ ?w2 ''S3_BUCKET_NAME'' = Some []"
    by simp_all
  from C8_empty_is_absent [of "()" "()" ?w1 start] c1 e1
  have r1: "lambda_handler () () ?w1 start
     = (Inr \<lparr>statusCode = 400,
             body = JObj [(''error'',
               JStr ''Missing WEATHER_API_KEY environment variable'')]\<rparr>, start)"
    by blast
  from C8_empty_is_absent [of "()" "()" ?w2 start] c2 e2
  have r2: "lambda_handler () () ?w2 start
     = (Inr \<lparr>statusCode = 400,
             body = JObj [(''error'',
               JStr ''Missing S3_BUCKET_NAME environment variable'')]\<rparr>, start)"
    by blast
  from e1 e2 r1 r2 show ?thesis
    by blast
qed

end
